theory Spec2Isabelle
  imports Main "HOL-Library.AList"
begin

section \<open>Exceptions\<close>

text \<open>
  The Python exceptions the modelled code can raise; a function that can raise returns
  \<open>error + 'a\<close>, with \<open>Inl\<close> for the exception. \<^verbatim>\<open>URDFParser.parse\<close> catches every
  exception with \<^verbatim>\<open>except Exception\<close>, prints it and calls \<^verbatim>\<open>sys.exit(1)\<close>, so an
  \<open>Inl\<close> of the parser is that exit. \<^verbatim>\<open>OutsideModel\<close> is not an exception: it marks a
  persisted document in which a field has a JSON type other than the declared one, which
  Python stores unchecked and the typed records here cannot hold.
\<close>

datatype error = ValueError | AttributeError | KeyError | TypeError | OutsideModel

section \<open>Robot description: joints (urdf\_block\_diagram.py, urdf\_block\_diagram\_pygame.py)\<close>

text \<open>
  Both converter programs contain the same \<^verbatim>\<open>Joint\<close> dataclass and the same parser.
  The parser fills the string fields from \<^verbatim>\<open>elem.get(attr)\<close>, which is \<^verbatim>\<open>None\<close> when the
  attribute is absent, so a "string" of the parser is an optional string here.
  Python floats are kept abstract: they are only stored, never computed with.
\<close>

typedecl pyfloat

type_synonym pystr = "string option"

record joint =
  joint_name :: pystr
  joint_type :: pystr
  parent :: pystr
  child :: pystr
  axis :: "pyfloat list option"
  limit :: "(string \<times> pyfloat) list option"
  state_interfaces :: "pystr list"
  command_interfaces :: "pystr list"
  hardware_interfaces :: "string list"

text \<open>
  \<^verbatim>\<open>Joint(name, joint_type, parent, child, axis, limit, state_interfaces,
  command_interfaces, hardware_interfaces)\<close>: the generated \<^verbatim>\<open>__init__\<close> followed by
  \<^verbatim>\<open>__post_init__\<close>. The three list arguments default to \<^verbatim>\<open>None\<close>.
\<close>

definition moving_joint_types :: "pystr list" where
  "moving_joint_types = [Some ''revolute'', Some ''prismatic'', Some ''continuous'']"

definition Joint ::
  "pystr \<Rightarrow> pystr \<Rightarrow> pystr \<Rightarrow> pystr \<Rightarrow> pyfloat list option \<Rightarrow> (string \<times> pyfloat) list option
   \<Rightarrow> pystr list option \<Rightarrow> pystr list option \<Rightarrow> string list option \<Rightarrow> joint" where
  "Joint n t p c ax lim si ci hi =
    (let s0 = (case si of None \<Rightarrow> [] | Some xs \<Rightarrow> xs);
         c0 = (case ci of None \<Rightarrow> [] | Some xs \<Rightarrow> xs);
         h0 = (case hi of None \<Rightarrow> [] | Some xs \<Rightarrow> xs);
         s1 = (if s0 = [] then
                 (if t \<in> set moving_joint_types then [Some ''position'', Some ''velocity'']
                  else if t = Some ''fixed'' then []
                  else s0)
               else s0);
         c1 = (if c0 = [] then
                 (if t \<in> set moving_joint_types then [Some ''position'']
                  else if t = Some ''fixed'' then []
                  else c0)
               else c0)
     in \<lparr>joint_name = n, joint_type = t, parent = p, child = c, axis = ax, limit = lim,
         state_interfaces = s1, command_interfaces = c1, hardware_interfaces = h0\<rparr>)"

section \<open>Robot description: tree layout (\_calculate\_layout, \_layout\_subtree)\<close>

text \<open>
  The two converter programs lay the links out with the same two methods; the tkinter one
  reads \<^verbatim>\<open>spacing_x\<close>, \<^verbatim>\<open>spacing_y\<close> and \<^verbatim>\<open>margin\<close> from its canvas, the pygame one from
  itself. The application state the methods use is the dict \<^verbatim>\<open>self.links\<close> (an
  association list in insertion order), the list \<^verbatim>\<open>self.joints\<close> and the dict
  \<^verbatim>\<open>self.layout\<close>, which \<^verbatim>\<open>_layout_subtree\<close> updates in place: here the layout is
  passed in and returned. A coordinate is a Python number: the layout computes ints, a
  position read back from the canvas after a drag may be a float. The loop over the
  children is \<^verbatim>\<open>layout_children\<close>, with the index of \<^verbatim>\<open>enumerate\<close> as an argument.
  The recursion ends because every call that does not return at once adds a name to the
  layout; Python's limit on the depth of recursion is not part of the model.
\<close>

record link =
  link_name :: pystr
  visual :: bool
  collision :: bool
  inertial :: bool

record layout_params =
  spacing_x :: int
  spacing_y :: int
  margin :: int

datatype pynum = IntNum int | FloatNum pyfloat

type_synonym layout = "pystr \<rightharpoonup> pynum \<times> pynum"

function layout_subtree :: "layout_params \<Rightarrow> joint list \<Rightarrow> pystr \<Rightarrow> int \<Rightarrow> int \<Rightarrow> layout \<Rightarrow> layout"
  and layout_children ::
    "layout_params \<Rightarrow> joint list \<Rightarrow> pystr list \<Rightarrow> nat \<Rightarrow> int \<Rightarrow> int \<Rightarrow> layout \<Rightarrow> layout"
where
  "layout_subtree P joints name depth y_offset L =
     (case L name of
        Some _ \<Rightarrow> L
      | None \<Rightarrow>
          layout_children P joints (map child (filter (\<lambda>j. parent j = name) joints)) 0 depth y_offset
            (L(name \<mapsto> (IntNum (margin P + depth * spacing_x P), IntNum (margin P + y_offset)))))"
| "layout_children P joints [] i depth y_offset L = L"
| "layout_children P joints (c # cs) i depth y_offset L =
     layout_children P joints cs (Suc i) depth y_offset
       (layout_subtree P joints c (depth + 1) (y_offset + int i * spacing_y P) L)"
  by pat_completeness auto

lemma layout_dom_mono:
  "layout_subtree_layout_children_dom (Inl (P, joints, name, depth, y_offset, L))
     \<Longrightarrow> dom L \<subseteq> dom (layout_subtree P joints name depth y_offset L)"
  "layout_subtree_layout_children_dom (Inr (P, joints, cs, i, depth, y_offset, L))
     \<Longrightarrow> dom L \<subseteq> dom (layout_children P joints cs i depth y_offset L)"
proof (induction rule: layout_subtree_layout_children.pinduct)
  case (1 P joints name depth y_offset L)
  show ?case
  proof (cases "L name")
    case None
    let ?L' = "L(name \<mapsto> (IntNum (margin P + depth * spacing_x P), IntNum (margin P + y_offset)))"
    have "dom L \<subseteq> dom ?L'" by auto
    also have "dom ?L' \<subseteq> dom (layout_children P joints
        (map child (filter (\<lambda>j. parent j = name) joints)) 0 depth y_offset ?L')"
      using "1.IH"[OF None] .
    finally show ?thesis
      using None by (simp add: layout_subtree.psimps[OF "1.hyps"])
  next
    case (Some a)
    then show ?thesis by (simp add: layout_subtree.psimps[OF "1.hyps"])
  qed
next
  case (2 P joints i depth y_offset L)
  then show ?case by (simp add: layout_children.psimps)
next
  case (3 P joints c cs i depth y_offset L)
  from "3.IH" have "dom L \<subseteq> dom (layout_children P joints cs (Suc i) depth y_offset
      (layout_subtree P joints c (depth + 1) (y_offset + int i * spacing_y P) L))"
    by (rule order_trans)
  then show ?case
    by (simp add: layout_children.psimps(2)[OF "3.hyps"])
qed

definition unplaced :: "joint list \<Rightarrow> pystr set \<Rightarrow> layout \<Rightarrow> nat" where
  "unplaced joints extra L = card ((set (map child joints) \<union> extra) - dom L)"

definition layout_measure ::
  "layout_params \<times> joint list \<times> pystr \<times> int \<times> int \<times> layout
   + layout_params \<times> joint list \<times> pystr list \<times> nat \<times> int \<times> int \<times> layout \<Rightarrow> nat \<times> nat" where
  "layout_measure x =
     (case x of
        Inl (P, joints, name, depth, y_offset, L) \<Rightarrow> (unplaced joints {name} L, 0)
      | Inr (P, joints, cs, i, depth, y_offset, L) \<Rightarrow> (unplaced joints (set cs) L, Suc (length cs)))"

termination layout_subtree
proof (relation "inv_image (less_than <*lex*> less_than) layout_measure")
  show "wf (inv_image (less_than <*lex*> less_than) layout_measure)"
    by (intro wf_inv_image wf_lex_prod wf_less_than)
next
  fix P :: layout_params and joints :: "joint list" and name :: pystr and depth y_offset :: int
    and L :: layout
  assume "L name = None"
  let ?cs = "map child (filter (\<lambda>j. parent j = name) joints)"
  let ?L' = "L(name \<mapsto> (IntNum (margin P + depth * spacing_x P), IntNum (margin P + y_offset)))"
  have sub: "set ?cs \<subseteq> set (map child joints)" by auto
  have "(set (map child joints) \<union> set ?cs) - dom ?L' \<subset> (set (map child joints) \<union> {name}) - dom L"
    using sub \<open>L name = None\<close> by (auto simp: dom_def)
  then have "unplaced joints (set ?cs) ?L' < unplaced joints {name} L"
    unfolding unplaced_def by (intro psubset_card_mono) auto
  then show "(Inr (P, joints, ?cs, 0, depth, y_offset, ?L'), Inl (P, joints, name, depth, y_offset, L))
      \<in> inv_image (less_than <*lex*> less_than) layout_measure"
    by (simp add: layout_measure_def)
next
  fix P :: layout_params and joints :: "joint list" and c :: pystr and cs :: "pystr list"
    and i :: nat and depth y_offset :: int and L :: layout
  have "(set (map child joints) \<union> {c}) - dom L \<subseteq> (set (map child joints) \<union> set (c # cs)) - dom L"
    by auto
  then have "unplaced joints {c} L \<le> unplaced joints (set (c # cs)) L"
    unfolding unplaced_def by (intro card_mono) auto
  then show "(Inl (P, joints, c, depth + 1, y_offset + int i * spacing_y P, L),
       Inr (P, joints, c # cs, i, depth, y_offset, L))
      \<in> inv_image (less_than <*lex*> less_than) layout_measure"
    by (auto simp: layout_measure_def)
next
  fix P :: layout_params and joints :: "joint list" and c :: pystr and cs :: "pystr list"
    and i :: nat and depth y_offset :: int and L :: layout
  assume d: "layout_subtree_layout_children_dom
      (Inl (P, joints, c, depth + 1, y_offset + int i * spacing_y P, L))"
  let ?L' = "layout_subtree P joints c (depth + 1) (y_offset + int i * spacing_y P) L"
  from layout_dom_mono(1)[OF d] have "dom L \<subseteq> dom ?L'" .
  then have "(set (map child joints) \<union> set cs) - dom ?L'
      \<subseteq> (set (map child joints) \<union> set (c # cs)) - dom L"
    by auto
  then have "unplaced joints (set cs) ?L' \<le> unplaced joints (set (c # cs)) L"
    unfolding unplaced_def by (intro card_mono) auto
  then show "(Inr (P, joints, cs, Suc i, depth, y_offset, ?L'),
       Inr (P, joints, c # cs, i, depth, y_offset, L))
      \<in> inv_image (less_than <*lex*> less_than) layout_measure"
    by (auto simp: layout_measure_def)
qed


fun layout_roots :: "layout_params \<Rightarrow> joint list \<Rightarrow> pystr list \<Rightarrow> nat \<Rightarrow> layout \<Rightarrow> layout" where
  "layout_roots P joints [] i L = L"
| "layout_roots P joints (root # roots) i L =
     layout_roots P joints roots (Suc i)
       (layout_subtree P joints root 0 (int i * spacing_y P * 2) L)"

definition root_links :: "(pystr \<times> link) list \<Rightarrow> joint list \<Rightarrow> pystr list" where
  "root_links links joints =
     (let child_links = set (map child joints);
          roots = filter (\<lambda>l. l \<notin> child_links) (map fst links)
      in if roots = [] \<and> links \<noteq> [] then [fst (hd links)] else roots)"

definition calculate_layout ::
  "layout_params \<Rightarrow> (pystr \<times> link) list \<Rightarrow> joint list \<Rightarrow> layout \<Rightarrow> layout" where
  "calculate_layout P links joints L = layout_roots P joints (root_links links joints) 0 L"

text \<open>The reference placement, following the words of the specification.\<close>

record 'n reference_graph =
  nodes :: "'n list"
  edges :: "('n \<times> 'n) list"

record reference_params =
  horizontalSpacing :: int
  verticalSpacing :: int
  ref_margin :: int

inductive place ::
    "reference_params \<Rightarrow> 'n reference_graph \<Rightarrow> 'n \<Rightarrow> int \<Rightarrow> int \<Rightarrow> ('n \<rightharpoonup> pynum \<times> pynum) \<Rightarrow> ('n \<rightharpoonup> pynum \<times> pynum) \<Rightarrow> bool"
  and place_children ::
    "reference_params \<Rightarrow> 'n reference_graph \<Rightarrow> 'n list \<Rightarrow> nat \<Rightarrow> int \<Rightarrow> int \<Rightarrow> ('n \<rightharpoonup> pynum \<times> pynum) \<Rightarrow> ('n \<rightharpoonup> pynum \<times> pynum) \<Rightarrow> bool"
where
  place_sticky:
    "pos nodeId = Some xy \<Longrightarrow> place R G nodeId depth yOffset pos pos"
| place_assign:
    "pos nodeId = None \<Longrightarrow>
     place_children R G (map snd (filter (\<lambda>e. fst e = nodeId) (edges G))) 0 (depth + 1) yOffset
       (pos(nodeId \<mapsto> (IntNum (ref_margin R + depth * horizontalSpacing R), IntNum (ref_margin R + yOffset)))) pos' \<Longrightarrow>
     place R G nodeId depth yOffset pos pos'"
| children_done:
    "place_children R G [] k depth yOffset pos pos"
| children_step:
    "place R G c depth (yOffset + int k * verticalSpacing R) pos pos1 \<Longrightarrow>
     place_children R G cs (Suc k) depth yOffset pos1 pos2 \<Longrightarrow>
     place_children R G (c # cs) k depth yOffset pos pos2"

inductive place_roots ::
  "reference_params \<Rightarrow> 'n reference_graph \<Rightarrow> 'n list \<Rightarrow> nat \<Rightarrow> ('n \<rightharpoonup> pynum \<times> pynum) \<Rightarrow> ('n \<rightharpoonup> pynum \<times> pynum) \<Rightarrow> bool"
where
  roots_done: "place_roots R G [] i pos pos"
| roots_step:
    "place R G r 0 (int i * verticalSpacing R * 2) pos pos1 \<Longrightarrow>
     place_roots R G rs (Suc i) pos1 pos2 \<Longrightarrow>
     place_roots R G (r # rs) i pos pos2"

definition is_root :: "'n reference_graph \<Rightarrow> 'n \<Rightarrow> bool" where
  "is_root G n \<longleftrightarrow> n \<notin> snd ` set (edges G)"

definition reference_roots :: "'n reference_graph \<Rightarrow> 'n list" where
  "reference_roots G =
     (case filter (is_root G) (nodes G) of
        [] \<Rightarrow> (case nodes G of [] \<Rightarrow> [] | n # _ \<Rightarrow> [n])
      | r # rs \<Rightarrow> r # rs)"

definition reference_layout ::
  "reference_params \<Rightarrow> 'n reference_graph \<Rightarrow> ('n \<rightharpoonup> pynum \<times> pynum) \<Rightarrow> ('n \<rightharpoonup> pynum \<times> pynum) \<Rightarrow> bool" where
  "reference_layout R G pos pos' = place_roots R G (reference_roots G) 0 pos pos'"

text \<open>How the program's data is read as the graph and the parameters of the reference.\<close>

definition graph_of :: "(pystr \<times> link) list \<Rightarrow> joint list \<Rightarrow> pystr reference_graph" where
  "graph_of links joints = \<lparr>nodes = map fst links, edges = map (\<lambda>j. (parent j, child j)) joints\<rparr>"

definition params_of :: "layout_params \<Rightarrow> reference_params" where
  "params_of P = \<lparr>horizontalSpacing = spacing_x P, verticalSpacing = spacing_y P, ref_margin = margin P\<rparr>"

section \<open>Robot description: the parser (URDFParser.parse)\<close>

text \<open>
  An element of \<^verbatim>\<open>xml.etree.ElementTree\<close>: tag, attributes, the text before the first
  child (\<^verbatim>\<open>None\<close> when there is none) and the children. \<^verbatim>\<open>get\<close> is \<^verbatim>\<open>elem.get(key)\<close>,
  \<^verbatim>\<open>findall\<close> and \<^verbatim>\<open>find_child\<close> are \<^verbatim>\<open>elem.findall(tag)\<close> and \<^verbatim>\<open>elem.find(tag)\<close>
  (the paths \<^verbatim>\<open>'tag'\<close> and \<^verbatim>\<open>'./tag'\<close> both select children), and \<^verbatim>\<open>find_with_attr\<close> is
  \<^verbatim>\<open>elem.find('./tag[@key="value"]')\<close>. \<^verbatim>\<open>split\<close> is \<^verbatim>\<open>str.split()\<close> on ASCII white
  space. The parser starts from the root element that \<^verbatim>\<open>ET.parse\<close> returns; Python's
  \<^verbatim>\<open>float\<close> is the parameter \<^verbatim>\<open>to_float\<close>, \<^verbatim>\<open>None\<close> where it raises \<^verbatim>\<open>ValueError\<close>.
  Local variables that share a name with a field of \<^verbatim>\<open>Joint\<close> are abbreviated.
\<close>

datatype xml = Elem (tag: string) (attrib: "(string \<times> string) list") (elem_text: "string option")
  (children: "xml list")

definition get :: "xml \<Rightarrow> string \<Rightarrow> pystr" where
  "get e k = map_of (attrib e) k"

definition findall :: "string \<Rightarrow> xml \<Rightarrow> xml list" where
  "findall t e = filter (\<lambda>c. tag c = t) (children e)"

definition find_child :: "string \<Rightarrow> xml \<Rightarrow> xml option" where
  "find_child t e = find (\<lambda>c. tag c = t) (children e)"

definition find_with_attr :: "string \<Rightarrow> string \<Rightarrow> string \<Rightarrow> xml \<Rightarrow> xml option" where
  "find_with_attr t k v e = find (\<lambda>c. tag c = t \<and> get c k = Some v) (children e)"

definition is_space :: "char \<Rightarrow> bool" where
  "is_space c \<longleftrightarrow> c \<in> set [CHR '' '', CHR 0x09, CHR 0x0A, CHR 0x0B, CHR 0x0C, CHR 0x0D,
                             CHR 0x1C, CHR 0x1D, CHR 0x1E, CHR 0x1F]"

fun split_from :: "string \<Rightarrow> string \<Rightarrow> string list" where
  "split_from cur [] = (if cur = [] then [] else [rev cur])"
| "split_from cur (c # cs) =
     (if is_space c then (if cur = [] then split_from [] cs else rev cur # split_from [] cs)
      else split_from (c # cur) cs)"

definition split :: "string \<Rightarrow> string list" where
  "split s = split_from [] s"

fun floats :: "(string \<Rightarrow> pyfloat option) \<Rightarrow> string list \<Rightarrow> error + pyfloat list" where
  "floats to_float [] = Inr []"
| "floats to_float (t # ts) =
     (case to_float t of
        None \<Rightarrow> Inl ValueError
      | Some x \<Rightarrow> (case floats to_float ts of Inl e \<Rightarrow> Inl e | Inr xs \<Rightarrow> Inr (x # xs)))"

definition parse_axis :: "(string \<Rightarrow> pyfloat option) \<Rightarrow> xml \<Rightarrow> error + pyfloat list option" where
  "parse_axis to_float joint_elem =
     (case find_child ''axis'' joint_elem of
        None \<Rightarrow> Inr None
      | Some axis_elem \<Rightarrow>
          (case get axis_elem ''xyz'' of
             None \<Rightarrow> Inr None
           | Some xyz \<Rightarrow>
               if xyz = [] then Inr None
               else (case floats to_float (split xyz) of Inl e \<Rightarrow> Inl e | Inr v \<Rightarrow> Inr (Some v))))"

fun limit_attrs ::
  "(string \<Rightarrow> pyfloat option) \<Rightarrow> xml \<Rightarrow> string list \<Rightarrow> (string \<times> pyfloat) list
     \<Rightarrow> error + (string \<times> pyfloat) list" where
  "limit_attrs to_float limit_elem [] lim = Inr lim"
| "limit_attrs to_float limit_elem (attr # attrs) lim =
     (case get limit_elem attr of
        None \<Rightarrow> limit_attrs to_float limit_elem attrs lim
      | Some val \<Rightarrow>
          if val = [] then limit_attrs to_float limit_elem attrs lim
          else (case to_float val of
                  None \<Rightarrow> Inl ValueError
                | Some x \<Rightarrow> limit_attrs to_float limit_elem attrs (AList.update attr x lim)))"

definition parse_limit ::
  "(string \<Rightarrow> pyfloat option) \<Rightarrow> xml \<Rightarrow> error + (string \<times> pyfloat) list option" where
  "parse_limit to_float joint_elem =
     (case find_child ''limit'' joint_elem of
        None \<Rightarrow> Inr None
      | Some limit_elem \<Rightarrow>
          (case limit_attrs to_float limit_elem [''lower'', ''upper'', ''effort'', ''velocity''] [] of
             Inl e \<Rightarrow> Inl e
           | Inr lim \<Rightarrow> Inr (Some lim)))"

definition interface_names :: "string \<Rightarrow> xml \<Rightarrow> pystr list" where
  "interface_names sect ros2_control =
     (case find_child sect ros2_control of
        None \<Rightarrow> []
      | Some section_elem \<Rightarrow> map (\<lambda>interface. get interface ''name'') (findall ''interface'' section_elem))"

definition parse_interfaces :: "xml \<Rightarrow> error + pystr list \<times> pystr list" where
  "parse_interfaces joint_elem =
     (let (state_ifs, command_ifs) =
            (case find_child ''ros2_control'' joint_elem of
               None \<Rightarrow> ([], [])
             | Some ros2_control \<Rightarrow>
                 (interface_names ''state_interfaces'' ros2_control,
                  interface_names ''command_interfaces'' ros2_control))
      in case find_child ''gazebo'' joint_elem of
           None \<Rightarrow> Inr (state_ifs, command_ifs)
         | Some gazebo \<Rightarrow>
             (case find_with_attr ''plugin'' ''name'' ''gazebo_ros_control'' gazebo of
                None \<Rightarrow> Inr (state_ifs, command_ifs)
              | Some plugin \<Rightarrow>
                  (let state_ifs =
                         (case find_child ''state_interface'' plugin of
                            None \<Rightarrow> state_ifs
                          | Some state_ifaces \<Rightarrow>
                              (case elem_text state_ifaces of
                                 None \<Rightarrow> state_ifs
                               | Some t \<Rightarrow> if t = [] then state_ifs else map Some (split t)))
                   in case find_child ''command_interface'' plugin of
                        None \<Rightarrow> Inr (state_ifs, command_ifs)
                      | Some command_ifaces \<Rightarrow>
                          (case elem_text command_ifaces of
                             None \<Rightarrow> Inr (state_ifs, command_ifs)
                           | Some t \<Rightarrow>
                               if t = [] then Inr (state_ifs, command_ifs)
                               else Inl AttributeError))))"

definition parse_joint :: "(string \<Rightarrow> pyfloat option) \<Rightarrow> xml \<Rightarrow> error + joint option" where
  "parse_joint to_float joint_elem =
     (case (find_child ''parent'' joint_elem, find_child ''child'' joint_elem) of
        (Some parent_elem, Some child_elem) \<Rightarrow>
          (case parse_axis to_float joint_elem of
             Inl e \<Rightarrow> Inl e
           | Inr ax \<Rightarrow>
          (case parse_limit to_float joint_elem of
             Inl e \<Rightarrow> Inl e
           | Inr lim \<Rightarrow>
          (case parse_interfaces joint_elem of
             Inl e \<Rightarrow> Inl e
           | Inr (state_ifs, command_ifs) \<Rightarrow>
               Inr (Some (Joint (get joint_elem ''name'') (get joint_elem ''type'')
                            (get parent_elem ''link'') (get child_elem ''link'') ax lim
                            (Some state_ifs) (Some command_ifs) None)))))
      | _ \<Rightarrow> Inr None)"

fun parse_joints :: "(string \<Rightarrow> pyfloat option) \<Rightarrow> xml list \<Rightarrow> joint list \<Rightarrow> error + joint list" where
  "parse_joints to_float [] joints = Inr joints"
| "parse_joints to_float (joint_elem # rest) joints =
     (case parse_joint to_float joint_elem of
        Inl e \<Rightarrow> Inl e
      | Inr None \<Rightarrow> parse_joints to_float rest joints
      | Inr (Some j) \<Rightarrow> parse_joints to_float rest (joints @ [j]))"

definition parse_link :: "xml \<Rightarrow> pystr \<times> link" where
  "parse_link link_elem =
     (get link_elem ''name'',
      \<lparr>link_name = get link_elem ''name'',
       visual = (length (findall ''visual'' link_elem) > 0),
       collision = (length (findall ''collision'' link_elem) > 0),
       inertial = (find_child ''inertial'' link_elem \<noteq> None)\<rparr>)"

definition parse :: "(string \<Rightarrow> pyfloat option) \<Rightarrow> xml \<Rightarrow> error + (pystr \<times> link) list \<times> joint list" where
  "parse to_float root =
     (let links = fold (\<lambda>link_elem links. case parse_link link_elem of (name, l) \<Rightarrow> AList.update name l links)
                    (findall ''link'' root) []
      in case parse_joints to_float (findall ''joint'' root) [] of
           Inl e \<Rightarrow> Inl e
         | Inr joints \<Rightarrow> Inr (links, joints))"

section \<open>The block editor: data model (app.py)\<close>

text \<open>
  A Python value that \<^verbatim>\<open>json\<close> can write: the type of the fields declared
  \<^verbatim>\<open>Tuple[int, int]\<close> (a port position, whose second component is a float once
  \<^verbatim>\<open>_update_port_positions\<close> has run, and which is a list after loading) and \<^verbatim>\<open>Any\<close>
  (a property value). Dict keys are strings.
\<close>

datatype pyval =
    PyNone
  | PyBool bool
  | PyInt int
  | PyFloat pyfloat
  | PyStr string
  | PyList "pyval list"
  | PyTuple "pyval list"
  | PyDict "(string \<times> pyval) list"

text \<open>
  The dataclasses \<^verbatim>\<open>Port\<close>, \<^verbatim>\<open>Block\<close>, \<^verbatim>\<open>Connection\<close> and \<^verbatim>\<open>BlockCanvas\<close>. Fields named
  \<^verbatim>\<open>id\<close>, \<^verbatim>\<open>name\<close>, \<^verbatim>\<open>x\<close> and \<^verbatim>\<open>y\<close> carry the name of their class as a prefix. A dict
  is an association list in insertion order, read with \<^verbatim>\<open>map_of\<close>, assigned with
  \<^verbatim>\<open>AList.update\<close> (an existing key keeps its place, a new one goes to the end) and
  deleted from with \<^verbatim>\<open>AList.delete\<close>; the keys of a dict are distinct.
\<close>

record port =
  port_id :: string
  port_name :: string
  data_type :: string
  position :: pyval
  is_input :: bool
  connected_to :: "string option"

record block =
  block_id :: string
  block_name :: string
  block_type :: string
  block_x :: int
  block_y :: int
  width :: int
  height :: int
  inputs :: "port list"
  outputs :: "port list"
  properties :: "(string \<times> pyval) list"

record connection =
  conn_id :: string
  source_block_id :: string
  source_port_id :: string
  target_block_id :: string
  target_port_id :: string

record block_canvas =
  blocks :: "(string \<times> block) list"
  connections :: "(string \<times> connection) list"

definition empty_canvas :: block_canvas where
  "empty_canvas = \<lparr>blocks = [], connections = []\<rparr>"

text \<open>
  \<^verbatim>\<open>Block.get_port_by_id\<close> returns the first port with the id among the inputs followed by
  the outputs. The callers then assign to \<^verbatim>\<open>connected_to\<close> of that port object:
  \<^verbatim>\<open>set_connected_to\<close> is that assignment on the same port. Blocks and ports are values
  here; every port and block object of the program is created fresh (by
  \<^verbatim>\<open>create_input\<close>, \<^verbatim>\<open>create_output\<close>, the editor or \<^verbatim>\<open>load_from_json\<close>) and lives in
  one list of one block, so no assignment is seen through a second reference.
\<close>

definition get_port_by_id :: "block \<Rightarrow> string \<Rightarrow> port option" where
  "get_port_by_id b pid = find (\<lambda>p. port_id p = pid) (inputs b @ outputs b)"

fun update_first :: "('a \<Rightarrow> bool) \<Rightarrow> ('a \<Rightarrow> 'a) \<Rightarrow> 'a list \<Rightarrow> 'a list" where
  "update_first P f [] = []"
| "update_first P f (x # xs) = (if P x then f x # xs else x # update_first P f xs)"

definition set_connected_to :: "block \<Rightarrow> string \<Rightarrow> string option \<Rightarrow> block" where
  "set_connected_to b pid v =
     (case find (\<lambda>p. port_id p = pid) (inputs b) of
        Some _ \<Rightarrow> b\<lparr>inputs := update_first (\<lambda>p. port_id p = pid) (\<lambda>p. p\<lparr>connected_to := v\<rparr>) (inputs b)\<rparr>
      | None \<Rightarrow> b\<lparr>outputs := update_first (\<lambda>p. port_id p = pid) (\<lambda>p. p\<lparr>connected_to := v\<rparr>) (outputs b)\<rparr>)"

text \<open>
  The four operations of \<^verbatim>\<open>BlockCanvas\<close>. None of them raises. \<^verbatim>\<open>connect_ports\<close> takes
  the id that \<^verbatim>\<open>str(uuid.uuid4())\<close> returns as its argument \<^verbatim>\<open>new_id\<close> and returns the
  canvas together with the connection or \<^verbatim>\<open>None\<close>.
\<close>

definition add_block :: "block_canvas \<Rightarrow> block \<Rightarrow> block_canvas" where
  "add_block c b = c\<lparr>blocks := AList.update (block_id b) b (blocks c)\<rparr>"

definition remove_block :: "block_canvas \<Rightarrow> string \<Rightarrow> block_canvas" where
  "remove_block c bid =
     (if map_of (blocks c) bid \<noteq> None then
        (let conn_to_remove =
               map fst (filter (\<lambda>(cid, conn). source_block_id conn = bid \<or> target_block_id conn = bid)
                          (connections c))
         in c\<lparr>connections := fold AList.delete conn_to_remove (connections c),
              blocks := AList.delete bid (blocks c)\<rparr>)
      else c)"

definition connect_ports ::
  "block_canvas \<Rightarrow> string \<Rightarrow> string \<Rightarrow> string \<Rightarrow> string \<Rightarrow> string \<Rightarrow> block_canvas \<times> connection option" where
  "connect_ports c new_id sb sp tb tp =
     (case map_of (blocks c) sb of
        None \<Rightarrow> (c, None)
      | Some source_block \<Rightarrow>
     (case map_of (blocks c) tb of
        None \<Rightarrow> (c, None)
      | Some target_block \<Rightarrow>
     (case get_port_by_id source_block sp of
        None \<Rightarrow> (c, None)
      | Some source_port \<Rightarrow>
     (case get_port_by_id target_block tp of
        None \<Rightarrow> (c, None)
      | Some target_port \<Rightarrow>
          if is_input source_port \<or> \<not> is_input target_port then (c, None)
          else if data_type source_port \<noteq> ''any'' \<and> data_type target_port \<noteq> ''any''
                  \<and> data_type source_port \<noteq> data_type target_port then (c, None)
          else
            (let conn = \<lparr>conn_id = new_id, source_block_id = sb, source_port_id = sp,
                         target_block_id = tb, target_port_id = tp\<rparr>
             in (c\<lparr>blocks := AList.update tb (set_connected_to target_block tp (Some sp)) (blocks c),
                    connections := AList.update new_id conn (connections c)\<rparr>,
                 Some conn))))))"

definition disconnect_ports :: "block_canvas \<Rightarrow> string \<Rightarrow> block_canvas" where
  "disconnect_ports c cid =
     (case map_of (connections c) cid of
        None \<Rightarrow> c
      | Some conn \<Rightarrow>
          (let blocks' =
                 (case map_of (blocks c) (target_block_id conn) of
                    None \<Rightarrow> blocks c
                  | Some target_block \<Rightarrow>
                      (case get_port_by_id target_block (target_port_id conn) of
                         None \<Rightarrow> blocks c
                       | Some _ \<Rightarrow>
                           AList.update (target_block_id conn)
                             (set_connected_to target_block (target_port_id conn) None) (blocks c)))
           in c\<lparr>blocks := blocks', connections := AList.delete cid (connections c)\<rparr>))"

text \<open>
  For the statements below: the edges that target an input port, all ports of a canvas,
  and the input ports whose back-reference names no output port of the canvas.
\<close>

definition edges_into :: "block_canvas \<Rightarrow> string \<Rightarrow> string \<Rightarrow> (string \<times> connection) list" where
  "edges_into c tb tp =
     filter (\<lambda>(cid, conn). target_block_id conn = tb \<and> target_port_id conn = tp) (connections c)"

definition all_ports :: "block_canvas \<Rightarrow> port list" where
  "all_ports c = concat (map (\<lambda>(bid, b). inputs b @ outputs b) (blocks c))"

definition dangling :: "block_canvas \<Rightarrow> port \<Rightarrow> bool" where
  "dangling c p =
     (case connected_to p of
        None \<Rightarrow> False
      | Some q \<Rightarrow> find (\<lambda>p'. port_id p' = q \<and> \<not> is_input p') (all_ports c) = None)"

definition dangling_backrefs :: "block_canvas \<Rightarrow> port list" where
  "dangling_backrefs c = filter (\<lambda>p. is_input p \<and> dangling c p) (all_ports c)"

text \<open>The connection that \<^verbatim>\<open>connect_ports\<close> builds from its arguments.\<close>

definition new_conn :: "string \<Rightarrow> string \<Rightarrow> string \<Rightarrow> string \<Rightarrow> string \<Rightarrow> connection" where
  "new_conn nid sb sp tb tp =
     \<lparr>conn_id = nid, source_block_id = sb, source_port_id = sp,
      target_block_id = tb, target_port_id = tp\<rparr>"

section \<open>The block editor: persistence (save\_to\_json, load\_from\_json)\<close>

text \<open>
  The file is the JSON value in it. \<^verbatim>\<open>json_dump\<close> and \<^verbatim>\<open>json_load\<close> are the two
  directions of Python's \<^verbatim>\<open>json\<close> module on the values \<^verbatim>\<open>asdict\<close> produces: lists and
  tuples both become arrays, an array is loaded as a list, an object keeps the order of
  its keys. \<^verbatim>\<open>asdict_port\<close>, \<^verbatim>\<open>asdict_block\<close> and \<^verbatim>\<open>asdict_connection\<close> are
  \<^verbatim>\<open>dataclasses.asdict\<close> on the three dataclasses.
\<close>

datatype json =
    JNull
  | JBool bool
  | JInt int
  | JFloat pyfloat
  | JString string
  | JArray "json list"
  | JObject "(string \<times> json) list"

primrec json_dump :: "pyval \<Rightarrow> json" where
  "json_dump PyNone = JNull"
| "json_dump (PyBool b) = JBool b"
| "json_dump (PyInt n) = JInt n"
| "json_dump (PyFloat x) = JFloat x"
| "json_dump (PyStr s) = JString s"
| "json_dump (PyList xs) = JArray (map json_dump xs)"
| "json_dump (PyTuple xs) = JArray (map json_dump xs)"
| "json_dump (PyDict kvs) = JObject (map (map_prod id json_dump) kvs)"

primrec json_load :: "json \<Rightarrow> pyval" where
  "json_load JNull = PyNone"
| "json_load (JBool b) = PyBool b"
| "json_load (JInt n) = PyInt n"
| "json_load (JFloat x) = PyFloat x"
| "json_load (JString s) = PyStr s"
| "json_load (JArray xs) = PyList (map json_load xs)"
| "json_load (JObject kvs) = PyDict (map (map_prod id json_load) kvs)"

definition asdict_port :: "port \<Rightarrow> pyval" where
  "asdict_port p =
     PyDict [(''id'', PyStr (port_id p)), (''name'', PyStr (port_name p)),
             (''data_type'', PyStr (data_type p)), (''position'', position p),
             (''is_input'', PyBool (is_input p)),
             (''connected_to'', case connected_to p of None \<Rightarrow> PyNone | Some s \<Rightarrow> PyStr s)]"

definition asdict_block :: "block \<Rightarrow> pyval" where
  "asdict_block b =
     PyDict [(''id'', PyStr (block_id b)), (''name'', PyStr (block_name b)),
             (''block_type'', PyStr (block_type b)), (''x'', PyInt (block_x b)),
             (''y'', PyInt (block_y b)), (''width'', PyInt (width b)), (''height'', PyInt (height b)),
             (''inputs'', PyList (map asdict_port (inputs b))),
             (''outputs'', PyList (map asdict_port (outputs b))),
             (''properties'', PyDict (properties b))]"

definition asdict_connection :: "connection \<Rightarrow> pyval" where
  "asdict_connection e =
     PyDict [(''id'', PyStr (conn_id e)), (''source_block_id'', PyStr (source_block_id e)),
             (''source_port_id'', PyStr (source_port_id e)),
             (''target_block_id'', PyStr (target_block_id e)),
             (''target_port_id'', PyStr (target_port_id e))]"

definition save_to_json :: "block_canvas \<Rightarrow> json" where
  "save_to_json c =
     json_dump (PyDict
       [(''blocks'', PyDict (map (\<lambda>(bid, block). (bid, asdict_block block)) (blocks c))),
        (''connections'', PyDict (map (\<lambda>(cid, conn). (cid, asdict_connection conn)) (connections c)))])"

text \<open>
  \<^verbatim>\<open>load_from_json\<close>. \<^verbatim>\<open>subscript\<close> is \<^verbatim>\<open>d[key]\<close> with a string key, \<^verbatim>\<open>items\<close> is
  \<^verbatim>\<open>d.items()\<close>, \<^verbatim>\<open>Port_kwargs\<close> is \<^verbatim>\<open>Port(**p)\<close> with its three required and three
  defaulted fields, \<^verbatim>\<open>ports_of\<close> is the list comprehension over
  \<^verbatim>\<open>block_data["inputs"]\<close>, \<^verbatim>\<open>update_port_connection\<close> is the block "Update port
  connections" of the loop over the connections.
\<close>

definition ebind :: "error + 'a \<Rightarrow> ('a \<Rightarrow> error + 'b) \<Rightarrow> error + 'b" where
  "ebind r f = (case r of Inl e \<Rightarrow> Inl e | Inr x \<Rightarrow> f x)"

fun each :: "('a \<Rightarrow> error + 'b) \<Rightarrow> 'a list \<Rightarrow> error + 'b list" where
  "each f [] = Inr []"
| "each f (x # xs) = ebind (f x) (\<lambda>y. ebind (each f xs) (\<lambda>ys. Inr (y # ys)))"

definition subscript :: "pyval \<Rightarrow> string \<Rightarrow> error + pyval" where
  "subscript d k =
     (case d of
        PyDict kvs \<Rightarrow> (case map_of kvs k of None \<Rightarrow> Inl KeyError | Some v \<Rightarrow> Inr v)
      | _ \<Rightarrow> Inl TypeError)"

definition as_str :: "pyval \<Rightarrow> error + string" where
  "as_str v = (case v of PyStr s \<Rightarrow> Inr s | _ \<Rightarrow> Inl OutsideModel)"

definition as_int :: "pyval \<Rightarrow> error + int" where
  "as_int v = (case v of PyInt n \<Rightarrow> Inr n | _ \<Rightarrow> Inl OutsideModel)"

definition as_bool :: "pyval \<Rightarrow> error + bool" where
  "as_bool v = (case v of PyBool b \<Rightarrow> Inr b | _ \<Rightarrow> Inl OutsideModel)"

definition as_optional_str :: "pyval \<Rightarrow> error + string option" where
  "as_optional_str v =
     (case v of PyNone \<Rightarrow> Inr None | PyStr s \<Rightarrow> Inr (Some s) | _ \<Rightarrow> Inl OutsideModel)"

definition as_dict :: "pyval \<Rightarrow> error + (string \<times> pyval) list" where
  "as_dict v = (case v of PyDict kvs \<Rightarrow> Inr kvs | _ \<Rightarrow> Inl OutsideModel)"

definition port_fields :: "string list" where
  "port_fields = [''id'', ''name'', ''data_type'', ''position'', ''is_input'', ''connected_to'']"

definition keyword :: "(string \<times> pyval) list \<Rightarrow> string \<Rightarrow> (pyval \<Rightarrow> error + 'a) \<Rightarrow> 'a \<Rightarrow> error + 'a" where
  "keyword kwargs k conv default_value =
     (case map_of kwargs k of None \<Rightarrow> Inr default_value | Some v \<Rightarrow> conv v)"

definition Port_kwargs :: "pyval \<Rightarrow> error + port" where
  "Port_kwargs p =
     (case p of
        PyDict kwargs \<Rightarrow>
          if \<not> list_all (\<lambda>(k, v). k \<in> set port_fields) kwargs then Inl TypeError
          else if \<not> list_all (\<lambda>k. map_of kwargs k \<noteq> None) [''id'', ''name'', ''data_type'']
          then Inl TypeError
          else
            ebind (ebind (subscript p ''id'') as_str) (\<lambda>i.
            ebind (ebind (subscript p ''name'') as_str) (\<lambda>n.
            ebind (ebind (subscript p ''data_type'') as_str) (\<lambda>t.
            ebind (keyword kwargs ''position'' Inr (PyTuple [PyInt 0, PyInt 0])) (\<lambda>pos.
            ebind (keyword kwargs ''is_input'' as_bool True) (\<lambda>inp.
            ebind (keyword kwargs ''connected_to'' as_optional_str None) (\<lambda>ct.
              Inr \<lparr>port_id = i, port_name = n, data_type = t, position = pos,
                   is_input = inp, connected_to = ct\<rparr>))))))
      | _ \<Rightarrow> Inl TypeError)"

definition ports_of :: "pyval \<Rightarrow> error + port list" where
  "ports_of v =
     (case v of
        PyList ps \<Rightarrow> each Port_kwargs ps
      | PyTuple ps \<Rightarrow> each Port_kwargs ps
      | PyStr s \<Rightarrow> if s = [] then Inr [] else Inl TypeError
      | PyDict kvs \<Rightarrow> if kvs = [] then Inr [] else Inl TypeError
      | _ \<Rightarrow> Inl TypeError)"

definition block_of :: "pyval \<Rightarrow> error + block" where
  "block_of block_data =
     ebind (ebind (subscript block_data ''inputs'') ports_of) (\<lambda>ins.
     ebind (ebind (subscript block_data ''outputs'') ports_of) (\<lambda>outs.
     ebind (ebind (subscript block_data ''id'') as_str) (\<lambda>i.
     ebind (ebind (subscript block_data ''name'') as_str) (\<lambda>n.
     ebind (ebind (subscript block_data ''block_type'') as_str) (\<lambda>t.
     ebind (ebind (subscript block_data ''x'') as_int) (\<lambda>bx.
     ebind (ebind (subscript block_data ''y'') as_int) (\<lambda>by.
     ebind (ebind (subscript block_data ''width'') as_int) (\<lambda>w.
     ebind (ebind (subscript block_data ''height'') as_int) (\<lambda>h.
     ebind (ebind (subscript block_data ''properties'') as_dict) (\<lambda>props.
       Inr \<lparr>block_id = i, block_name = n, block_type = t, block_x = bx, block_y = by,
            width = w, height = h, inputs = ins, outputs = outs, properties = props\<rparr>))))))))))"

definition connection_of :: "pyval \<Rightarrow> error + connection" where
  "connection_of conn_data =
     ebind (ebind (subscript conn_data ''id'') as_str) (\<lambda>i.
     ebind (ebind (subscript conn_data ''source_block_id'') as_str) (\<lambda>sb.
     ebind (ebind (subscript conn_data ''source_port_id'') as_str) (\<lambda>sp.
     ebind (ebind (subscript conn_data ''target_block_id'') as_str) (\<lambda>tb.
     ebind (ebind (subscript conn_data ''target_port_id'') as_str) (\<lambda>tp.
       Inr \<lparr>conn_id = i, source_block_id = sb, source_port_id = sp,
            target_block_id = tb, target_port_id = tp\<rparr>)))))"

definition update_port_connection :: "connection \<Rightarrow> (string \<times> block) list \<Rightarrow> (string \<times> block) list" where
  "update_port_connection conn bs =
     (case map_of bs (target_block_id conn) of
        None \<Rightarrow> bs
      | Some target_block \<Rightarrow>
          (case get_port_by_id target_block (target_port_id conn) of
             None \<Rightarrow> bs
           | Some _ \<Rightarrow>
               AList.update (target_block_id conn)
                 (set_connected_to target_block (target_port_id conn) (Some (source_port_id conn))) bs))"

fun load_blocks :: "(string \<times> pyval) list \<Rightarrow> block_canvas \<Rightarrow> error + block_canvas" where
  "load_blocks [] canvas = Inr canvas"
| "load_blocks ((bid, block_data) # rest) canvas =
     ebind (block_of block_data)
       (\<lambda>block. load_blocks rest (canvas\<lparr>blocks := AList.update bid block (blocks canvas)\<rparr>))"

fun load_connections :: "(string \<times> pyval) list \<Rightarrow> block_canvas \<Rightarrow> error + block_canvas" where
  "load_connections [] canvas = Inr canvas"
| "load_connections ((cid, conn_data) # rest) canvas =
     ebind (connection_of conn_data)
       (\<lambda>conn. load_connections rest
          (canvas\<lparr>connections := AList.update cid conn (connections canvas),
                  blocks := update_port_connection conn (blocks canvas)\<rparr>))"

definition items :: "pyval \<Rightarrow> error + (string \<times> pyval) list" where
  "items v = (case v of PyDict kvs \<Rightarrow> Inr kvs | _ \<Rightarrow> Inl AttributeError)"

definition load_from_json :: "json \<Rightarrow> error + block_canvas" where
  "load_from_json file =
     (let data = json_load file in
      ebind (ebind (subscript data ''blocks'') items) (\<lambda>block_items.
      ebind (load_blocks block_items empty_canvas) (\<lambda>canvas.
      ebind (ebind (subscript data ''connections'') items) (\<lambda>conn_items.
        load_connections conn_items canvas))))"

text \<open>
  What a round trip does to a canvas: every tuple becomes a list, and the back-references
  are derived again from the connections, in the order of the connection map.
\<close>

definition listify :: "pyval \<Rightarrow> pyval" where
  "listify v = json_load (json_dump v)"

definition listify_port :: "port \<Rightarrow> port" where
  "listify_port p = p\<lparr>position := listify (position p)\<rparr>"

definition listify_block :: "block \<Rightarrow> block" where
  "listify_block b =
     b\<lparr>inputs := map listify_port (inputs b), outputs := map listify_port (outputs b),
       properties := map (map_prod id listify) (properties b)\<rparr>"

definition rederive_backrefs :: "block_canvas \<Rightarrow> block_canvas" where
  "rederive_backrefs c = c\<lparr>blocks := fold update_port_connection (map snd (connections c)) (blocks c)\<rparr>"

definition listify_canvas :: "block_canvas \<Rightarrow> block_canvas" where
  "listify_canvas c = c\<lparr>blocks := map (map_prod id listify_block) (blocks c)\<rparr>"

section \<open>Example canvases\<close>

text \<open>
  Blocks as the editor creates them (\<^verbatim>\<open>add_new_block\<close>): an input value with a number
  output, an operation with two number inputs and a number output, a sink with a string
  input, a function with an \<^verbatim>\<open>any\<close> input and an \<^verbatim>\<open>any\<close> output. Ports have the
  default position \<^verbatim>\<open>(0, 0)\<close>. Every canvas below is built from the empty canvas by
  the four operations.
\<close>

definition mk_port :: "string \<Rightarrow> string \<Rightarrow> string \<Rightarrow> bool \<Rightarrow> port" where
  "mk_port i n t inp =
     \<lparr>port_id = i, port_name = n, data_type = t, position = PyTuple [PyInt 0, PyInt 0],
      is_input = inp, connected_to = None\<rparr>"

definition mk_block :: "string \<Rightarrow> string \<Rightarrow> string \<Rightarrow> port list \<Rightarrow> port list \<Rightarrow> block" where
  "mk_block i n t ins outs =
     \<lparr>block_id = i, block_name = n, block_type = t, block_x = 0, block_y = 0, width = 150,
      height = 100, inputs = ins, outputs = outs, properties = []\<rparr>"

definition blk_A :: block where
  "blk_A = mk_block ''A'' ''Input Value'' ''input_value'' [] [mk_port ''a_out'' ''value'' ''number'' False]"

definition blk_B :: block where
  "blk_B = mk_block ''B'' ''Operation'' ''operation''
     [mk_port ''b_in1'' ''input1'' ''number'' True, mk_port ''b_in2'' ''input2'' ''number'' True]
     [mk_port ''b_out'' ''result'' ''number'' False]"

definition blk_C :: block where
  "blk_C = mk_block ''C'' ''Input Value'' ''input_value'' [] [mk_port ''c_out'' ''value'' ''number'' False]"

definition blk_S :: block where
  "blk_S = mk_block ''S'' ''Text'' ''output_value'' [mk_port ''s_in'' ''value'' ''string'' True] []"

definition blk_F :: block where
  "blk_F = mk_block ''F'' ''Function'' ''function''
     [mk_port ''f_in'' ''param1'' ''any'' True] [mk_port ''f_out'' ''return_value'' ''any'' False]"

definition canvas_ABC :: block_canvas where
  "canvas_ABC = add_block (add_block (add_block (add_block empty_canvas blk_A) blk_B) blk_C) blk_S"

definition blk_A2 :: block where
  "blk_A2 = mk_block ''A'' ''Replacement'' ''output_value'' [mk_port ''a2_in'' ''value'' ''any'' True] []"

definition canvas_connected :: block_canvas where
  "canvas_connected = fst (connect_ports canvas_ABC ''e1'' ''A'' ''a_out'' ''B'' ''b_in1'')"

definition canvas_F :: block_canvas where
  "canvas_F = add_block empty_canvas blk_F"

definition blk_B_connected :: "string \<Rightarrow> block" where
  "blk_B_connected src = mk_block ''B'' ''Operation'' ''operation''
     [(mk_port ''b_in1'' ''input1'' ''number'' True)\<lparr>connected_to := Some src\<rparr>,
      mk_port ''b_in2'' ''input2'' ''number'' True]
     [mk_port ''b_out'' ''result'' ''number'' False]"

definition blk_F_connected :: block where
  "blk_F_connected = mk_block ''F'' ''Function'' ''function''
     [(mk_port ''f_in'' ''param1'' ''any'' True)\<lparr>connected_to := Some ''f_out''\<rparr>]
     [mk_port ''f_out'' ''return_value'' ''any'' False]"

text \<open>
  The spacing values of both converter programs and a robot with links \<^verbatim>\<open>L1\<close>,
  \<^verbatim>\<open>L2\<close>, \<^verbatim>\<open>L3\<close> and joints from \<^verbatim>\<open>L1\<close> to the other two.
\<close>

definition tk_params :: layout_params where
  "tk_params = \<lparr>spacing_x = 180, spacing_y = 100, margin = 50\<rparr>"

definition mk_link :: "string \<Rightarrow> pystr \<times> link" where
  "mk_link n = (Some n, \<lparr>link_name = Some n, visual = False, collision = False, inertial = False\<rparr>)"

definition links_C :: "(pystr \<times> link) list" where
  "links_C = [mk_link ''L1'', mk_link ''L2'', mk_link ''L3'']"

definition joints_C :: "joint list" where
  "joints_C =
     [Joint (Some ''j12'') (Some ''revolute'') (Some ''L1'') (Some ''L2'') None None None None None,
      Joint (Some ''j13'') (Some ''fixed'') (Some ''L1'') (Some ''L3'') None None None None None]"

text \<open>
  A robot description with two links and one revolute joint that declares one interface
  element inside \<^verbatim>\<open>gazebo/plugin[@name='gazebo_ros_control']\<close>.
\<close>

definition leaf :: "string \<Rightarrow> (string \<times> string) list \<Rightarrow> xml" where
  "leaf t attrs = Elem t attrs None []"

definition gazebo_joint :: "string \<Rightarrow> string \<Rightarrow> xml" where
  "gazebo_joint iface_tag iface_text =
     Elem ''joint'' [(''name'', ''shoulder''), (''type'', ''revolute'')] None
       [leaf ''parent'' [(''link'', ''base'')],
        leaf ''child'' [(''link'', ''arm'')],
        Elem ''gazebo'' [] None
          [Elem ''plugin'' [(''name'', ''gazebo_ros_control'')] None
             [Elem iface_tag [] (Some iface_text) []]]]"

definition gazebo_robot :: "string \<Rightarrow> string \<Rightarrow> xml" where
  "gazebo_robot iface_tag iface_text =
     Elem ''robot'' [(''name'', ''r'')] None
       [leaf ''link'' [(''name'', ''base'')], leaf ''link'' [(''name'', ''arm'')],
        gazebo_joint iface_tag iface_text]"

text \<open>
  The canvas after two connects into \<^verbatim>\<open>B.b_in1\<close> and a disconnect of the second, and
  the back-reference of a port of a block (\<^verbatim>\<open>None\<close> when either does not resolve).
\<close>

definition canvas_reconnected :: block_canvas where
  "canvas_reconnected =
     disconnect_ports (fst (connect_ports canvas_connected ''e2'' ''C'' ''c_out'' ''B'' ''b_in1'')) ''e2''"

definition backref :: "block_canvas \<Rightarrow> string \<Rightarrow> string \<Rightarrow> string option option" where
  "backref c bid pid =
     (case map_of (blocks c) bid of
        None \<Rightarrow> None
      | Some b \<Rightarrow> map_option connected_to (get_port_by_id b pid))"

section \<open>Facts about the canvas operations\<close>

lemma find_app:
  "find P (xs @ ys) = (case find P xs of None \<Rightarrow> find P ys | Some x \<Rightarrow> Some x)"
  by (induction xs) auto

lemma find_update_first_pres:
  "(\<And>x. P (f x) = P x) \<Longrightarrow> find P (update_first P f xs) = map_option f (find P xs)"
  by (induction xs) auto

lemma update_first_none: "find P xs = None \<Longrightarrow> update_first P f xs = xs"
  by (induction xs) (auto split: if_splits)

lemma get_port_set_connected_to:
  "get_port_by_id (set_connected_to b pid v) pid
     = map_option (\<lambda>p. p\<lparr>connected_to := v\<rparr>) (get_port_by_id b pid)"
  by (auto simp: get_port_by_id_def set_connected_to_def find_update_first_pres find_app update_first_none
      split: option.splits)

lemma get_port_by_id_id: "get_port_by_id b pid = Some p \<Longrightarrow> port_id p = pid"
  by (auto simp: get_port_by_id_def dest: find_Some_iff[THEN iffD1])

lemma map_of_update: "map_of (AList.update k v al) k = Some v"
  by (simp add: update_conv')

lemma connect_ports_resolved:
  assumes "map_of (blocks c) sb = Some sblk" "map_of (blocks c) tb = Some tblk"
    "get_port_by_id sblk sp = Some a" "get_port_by_id tblk tp = Some b"
  shows "connect_ports c nid sb sp tb tp =
     (if \<not> is_input a \<and> is_input b
          \<and> (data_type a = ''any'' \<or> data_type b = ''any'' \<or> data_type a = data_type b)
      then (c\<lparr>blocks := AList.update tb (set_connected_to tblk tp (Some sp)) (blocks c),
               connections := AList.update nid (new_conn nid sb sp tb tp) (connections c)\<rparr>,
            Some (new_conn nid sb sp tb tp))
      else (c, None))"
  using assms by (auto simp: connect_ports_def new_conn_def Let_def)

lemma connect_ports_no_block:
  "map_of (blocks c) sb = None \<or> map_of (blocks c) tb = None
     \<Longrightarrow> connect_ports c nid sb sp tb tp = (c, None)"
  by (auto simp: connect_ports_def split: option.splits)

lemma connect_ports_no_port:
  "map_of (blocks c) sb = Some sblk \<Longrightarrow> map_of (blocks c) tb = Some tblk
     \<Longrightarrow> get_port_by_id sblk sp = None \<or> get_port_by_id tblk tp = None
     \<Longrightarrow> connect_ports c nid sb sp tb tp = (c, None)"
  by (auto simp: connect_ports_def split: option.splits)

lemma connect_ports_SomeD:
  assumes "connect_ports c nid sb sp tb tp = (c', Some e)"
  obtains sblk tblk a b where
    "map_of (blocks c) sb = Some sblk" "map_of (blocks c) tb = Some tblk"
    "get_port_by_id sblk sp = Some a" "get_port_by_id tblk tp = Some b"
    "\<not> is_input a" "is_input b"
    "data_type a = ''any'' \<or> data_type b = ''any'' \<or> data_type a = data_type b"
    "e = new_conn nid sb sp tb tp"
    "c' = c\<lparr>blocks := AList.update tb (set_connected_to tblk tp (Some sp)) (blocks c),
            connections := AList.update nid e (connections c)\<rparr>"
proof (cases "map_of (blocks c) sb")
  case None
  with assms show ?thesis by (simp add: connect_ports_no_block)
next
  case sblk: (Some sblk)
  show ?thesis
  proof (cases "map_of (blocks c) tb")
    case None
    with assms show ?thesis by (simp add: connect_ports_no_block)
  next
    case tblk: (Some tblk)
    show ?thesis
    proof (cases "get_port_by_id sblk sp")
      case None
      with assms sblk tblk show ?thesis by (simp add: connect_ports_no_port)
    next
      case a: (Some a)
      show ?thesis
      proof (cases "get_port_by_id tblk tp")
        case None
        with assms sblk tblk show ?thesis by (simp add: connect_ports_no_port)
      next
        case b: (Some b)
        from assms show ?thesis
          unfolding connect_ports_resolved[OF sblk tblk a b]
          by (auto split: if_splits intro!: that[OF sblk tblk a b])
      qed
    qed
  qed
qed

lemma connect_ports_NoneD:
  assumes "connect_ports c nid sb sp tb tp = (c', None)"
  shows "c' = c"
  using assms by (auto simp: connect_ports_def Let_def split: option.splits if_splits)

lemma fold_delete_filter:
  "fold AList.delete ks al = filter (\<lambda>(k, v). k \<notin> set ks) al"
proof (induction ks arbitrary: al)
  case Nil
  then show ?case by simp
next
  case (Cons k ks)
  have "filter (\<lambda>(k', v). k' \<notin> set ks) (AList.delete k al)
          = filter (\<lambda>(k', v). k' \<notin> set (k # ks)) al"
    by (induction al) (auto simp: AList.delete_eq)
  with Cons show ?case by simp
qed

lemma update_fresh: "map_of al k = None \<Longrightarrow> AList.update k v al = al @ [(k, v)]"
  by (induction al) (auto split: if_splits)

lemma update_keys_present:
  "map_of al k \<noteq> None \<Longrightarrow> map fst (AList.update k v al) = map fst al"
  by (induction al) (auto split: if_splits)

lemma find_update_first_other:
  "po \<noteq> pid \<Longrightarrow>
     find (\<lambda>p. port_id p = po)
       (update_first (\<lambda>p. port_id p = pid) (\<lambda>p. p\<lparr>connected_to := v\<rparr>) xs)
     = find (\<lambda>p. port_id p = po) xs"
  by (induction xs) auto

lemma get_port_set_connected_to_other:
  "po \<noteq> pid \<Longrightarrow> get_port_by_id (set_connected_to b pid v) po = get_port_by_id b po"
  by (auto simp: get_port_by_id_def set_connected_to_def find_app find_update_first_other
      split: option.splits)

lemma canvas_ABC_eval:
  "canvas_ABC = \<lparr>blocks = [(''A'', blk_A), (''B'', blk_B), (''C'', blk_C), (''S'', blk_S)],
                  connections = []\<rparr>"
  by (simp add: canvas_ABC_def add_block_def empty_canvas_def blk_A_def blk_B_def blk_C_def
      blk_S_def mk_block_def)

lemma get_port_examples:
  "get_port_by_id blk_A ''a_out'' = Some (mk_port ''a_out'' ''value'' ''number'' False)"
  "get_port_by_id blk_C ''c_out'' = Some (mk_port ''c_out'' ''value'' ''number'' False)"
  "get_port_by_id blk_B ''b_in1'' = Some (mk_port ''b_in1'' ''input1'' ''number'' True)"
  "get_port_by_id (blk_B_connected src) ''b_in1''
     = Some ((mk_port ''b_in1'' ''input1'' ''number'' True)\<lparr>connected_to := Some src\<rparr>)"
  "get_port_by_id blk_F ''f_out'' = Some (mk_port ''f_out'' ''return_value'' ''any'' False)"
  "get_port_by_id blk_F ''f_in'' = Some (mk_port ''f_in'' ''param1'' ''any'' True)"
  by (simp_all add: get_port_by_id_def blk_A_def blk_B_def blk_C_def blk_F_def blk_B_connected_def
      mk_block_def mk_port_def)

lemma set_connected_to_examples:
  "set_connected_to blk_B ''b_in1'' (Some src) = blk_B_connected src"
  "set_connected_to (blk_B_connected src) ''b_in1'' (Some src') = blk_B_connected src'"
  "set_connected_to (blk_B_connected src) ''b_in1'' None = blk_B"
  by (simp_all add: set_connected_to_def blk_B_def blk_B_connected_def mk_block_def mk_port_def)

lemma canvas_connected_eval:
  "canvas_connected =
     \<lparr>blocks = [(''A'', blk_A), (''B'', blk_B_connected ''a_out''), (''C'', blk_C), (''S'', blk_S)],
      connections = [(''e1'', new_conn ''e1'' ''A'' ''a_out'' ''B'' ''b_in1'')]\<rparr>"
proof -
  have "connect_ports canvas_ABC ''e1'' ''A'' ''a_out'' ''B'' ''b_in1'' =
     (\<lparr>blocks = [(''A'', blk_A), (''B'', blk_B_connected ''a_out''), (''C'', blk_C), (''S'', blk_S)],
      connections = [(''e1'', new_conn ''e1'' ''A'' ''a_out'' ''B'' ''b_in1'')]\<rparr>,
      Some (new_conn ''e1'' ''A'' ''a_out'' ''B'' ''b_in1''))"
    by (subst connect_ports_resolved[where sblk = blk_A and tblk = blk_B
          and a = "mk_port ''a_out'' ''value'' ''number'' False"
          and b = "mk_port ''b_in1'' ''input1'' ''number'' True"])
       (simp_all add: canvas_ABC_eval get_port_examples set_connected_to_examples mk_port_def)
  then show ?thesis by (simp add: canvas_connected_def)
qed

lemma second_connect_eval:
  "connect_ports canvas_connected ''e2'' ''C'' ''c_out'' ''B'' ''b_in1'' =
     (\<lparr>blocks = [(''A'', blk_A), (''B'', blk_B_connected ''c_out''), (''C'', blk_C), (''S'', blk_S)],
      connections = [(''e1'', new_conn ''e1'' ''A'' ''a_out'' ''B'' ''b_in1''),
                     (''e2'', new_conn ''e2'' ''C'' ''c_out'' ''B'' ''b_in1'')]\<rparr>,
      Some (new_conn ''e2'' ''C'' ''c_out'' ''B'' ''b_in1''))"
  by (subst connect_ports_resolved[where sblk = blk_C and tblk = "blk_B_connected ''a_out''"
          and a = "mk_port ''c_out'' ''value'' ''number'' False"
          and b = "(mk_port ''b_in1'' ''input1'' ''number'' True)\<lparr>connected_to := Some ''a_out''\<rparr>"])
     (simp_all add: canvas_connected_eval get_port_examples set_connected_to_examples mk_port_def)

lemma canvas_F_eval: "canvas_F = \<lparr>blocks = [(''F'', blk_F)], connections = []\<rparr>"
  by (simp add: canvas_F_def add_block_def empty_canvas_def blk_F_def mk_block_def)

lemma set_connected_to_F: "set_connected_to blk_F ''f_in'' (Some ''f_out'') = blk_F_connected"
  by (simp add: set_connected_to_def blk_F_def blk_F_connected_def mk_block_def mk_port_def)

section \<open>Facts about the tree layout\<close>

lemma layout_subtree_placed:
  "L name = Some xy \<Longrightarrow> layout_subtree P joints name depth y_offset L = L"
  by simp

lemma layout_subtree_new:
  "L name = None \<Longrightarrow>
     layout_subtree P joints name depth y_offset L =
       layout_children P joints (map child (filter (\<lambda>j. parent j = name) joints)) 0 depth y_offset
         (L(name \<mapsto> (IntNum (margin P + depth * spacing_x P), IntNum (margin P + y_offset))))"
  by simp

declare layout_subtree.simps [simp del]

lemma params_of_simps:
  "horizontalSpacing (params_of P) = spacing_x P"
  "verticalSpacing (params_of P) = spacing_y P"
  "ref_margin (params_of P) = margin P"
  by (simp_all add: params_of_def)

lemma children_of_graph:
  "map snd (filter (\<lambda>e. fst e = n) (edges (graph_of links joints)))
     = map child (filter (\<lambda>j. parent j = n) joints)"
  by (induction joints) (auto simp: graph_of_def)

lemma layout_sound:
  "place (params_of P) (graph_of links joints) name depth y_offset L
      (layout_subtree P joints name depth y_offset L)"
  "place_children (params_of P) (graph_of links joints) cs i (depth + 1) y_offset L
      (layout_children P joints cs i depth y_offset L)"
proof (induction P joints name depth y_offset L and P joints cs i depth y_offset L
    rule: layout_subtree_layout_children.induct)
  case (1 P joints name depth y_offset L)
  show ?case
  proof (cases "L name")
    case None
    show ?thesis
      unfolding layout_subtree_new[where L = L and name = name, OF None]
      by (rule place_assign[where pos = L and nodeId = name, OF None])
         (simp only: children_of_graph params_of_simps "1.IH"[OF None])
  next
    case (Some xy)
    show ?thesis
      unfolding layout_subtree_placed[where L = L and name = name, OF Some] by (rule place_sticky[where pos = L and nodeId = name, OF Some])
  qed
next
  case (2 P joints i depth y_offset L)
  show ?case by (simp add: children_done)
next
  case (3 P joints c cs i depth y_offset L)
  have "place (params_of P) (graph_of links joints) c (depth + 1)
      (y_offset + int i * verticalSpacing (params_of P)) L
      (layout_subtree P joints c (depth + 1) (y_offset + int i * spacing_y P) L)"
    using "3.IH"(1) by (simp only: params_of_simps)
  then show ?case
    unfolding layout_children.simps by (rule children_step) (rule "3.IH"(2))
qed

lemma place_complete:
  "place R G name depth y_offset L L' \<Longrightarrow>
     R = params_of P \<Longrightarrow> G = graph_of links joints \<Longrightarrow>
     L' = layout_subtree P joints name depth y_offset L"
  "place_children R G cs i d y_offset L L' \<Longrightarrow>
     R = params_of P \<Longrightarrow> G = graph_of links joints \<Longrightarrow>
     L' = layout_children P joints cs i (d - 1) y_offset L"
proof (induction rule: place_place_children.inducts)
  case (place_sticky pos nodeId xy R G depth yOffset)
  then show ?case by (simp add: layout_subtree_placed)
next
  case (place_assign pos nodeId R G depth yOffset pos')
  have "pos' = layout_children P joints
      (map snd (filter (\<lambda>e. fst e = nodeId) (edges G))) 0 (depth + 1 - 1) yOffset
      (pos(nodeId \<mapsto> (IntNum (ref_margin R + depth * horizontalSpacing R), IntNum (ref_margin R + yOffset))))"
    by (rule place_assign.IH) (rule place_assign.prems)+
  also have "depth + 1 - 1 = depth" by simp
  finally show ?case
    unfolding layout_subtree_new[where L = pos and name = nodeId, OF place_assign.hyps(1)]
    by (simp only: place_assign.prems children_of_graph params_of_simps)
next
  case (children_done R G k depth yOffset pos)
  then show ?case by simp
next
  case (children_step R G c depth yOffset k pos pos1 cs pos2)
  have "depth - 1 + 1 = depth" by simp
  with children_step show ?case by (simp add: params_of_simps)
qed

lemma layout_sticky:
  "L \<subseteq>\<^sub>m layout_subtree P joints name depth y_offset L"
  "L \<subseteq>\<^sub>m layout_children P joints cs i depth y_offset L"
proof (induction P joints name depth y_offset L and P joints cs i depth y_offset L
    rule: layout_subtree_layout_children.induct)
  case (1 P joints name depth y_offset L)
  show ?case
  proof (cases "L name")
    case None
    have "L \<subseteq>\<^sub>m L(name \<mapsto> (IntNum (margin P + depth * spacing_x P), IntNum (margin P + y_offset)))"
      using None by (auto simp: map_le_def)
    then show ?thesis
      unfolding layout_subtree_new[where L = L and name = name, OF None]
      using "1.IH"[OF None] by (rule map_le_trans)
  next
    case (Some xy)
    then show ?thesis by (simp add: layout_subtree_placed)
  qed
next
  case (2 P joints i depth y_offset L)
  show ?case by simp
next
  case (3 P joints c cs i depth y_offset L)
  from "3.IH" show ?case
    unfolding layout_children.simps by (rule map_le_trans)
qed

lemma layout_roots_sound:
  "place_roots (params_of P) (graph_of links joints) rs i L (layout_roots P joints rs i L)"
proof (induction rs arbitrary: i L)
  case Nil
  show ?case by (simp add: roots_done)
next
  case (Cons r rs)
  have "place (params_of P) (graph_of links joints) r 0
      (int i * verticalSpacing (params_of P) * 2) L
      (layout_subtree P joints r 0 (int i * spacing_y P * 2) L)"
    using layout_sound(1)[of P links joints r 0 "int i * spacing_y P * 2" L]
    by (simp only: params_of_simps)
  then show ?case
    unfolding layout_roots.simps by (rule roots_step) (rule Cons.IH)
qed

lemma place_roots_complete:
  "place_roots R G rs i L L' \<Longrightarrow> R = params_of P \<Longrightarrow> G = graph_of links joints \<Longrightarrow>
     L' = layout_roots P joints rs i L"
proof (induction rule: place_roots.induct)
  case (roots_done R G i pos)
  then show ?case by simp
next
  case (roots_step R G r i pos pos1 rs pos2)
  from roots_step.hyps(1) roots_step.prems
  have "pos1 = layout_subtree P joints r 0 (int i * spacing_y P * 2) pos"
    using place_complete(1)[of R G r 0 "int i * verticalSpacing R * 2" pos pos1 P links joints]
    by (simp add: params_of_simps)
  with roots_step show ?case by simp
qed

lemma layout_roots_sticky: "L \<subseteq>\<^sub>m layout_roots P joints rs i L"
proof (induction rs arbitrary: i L)
  case Nil
  show ?case by simp
next
  case (Cons r rs)
  have "L \<subseteq>\<^sub>m layout_subtree P joints r 0 (int i * spacing_y P * 2) L"
    by (rule layout_sticky)
  then show ?case
    unfolding layout_roots.simps using Cons.IH by (rule map_le_trans)
qed

lemma root_links_reference:
  "root_links links joints = reference_roots (graph_of links joints)"
proof -
  have "filter (is_root (graph_of links joints)) (map fst links)
      = filter (\<lambda>l. l \<notin> set (map child joints)) (map fst links)"
    by (rule filter_cong) (auto simp: is_root_def graph_of_def image_iff)
  then show ?thesis
    by (cases links)
       (auto simp: root_links_def reference_roots_def graph_of_def Let_def split: list.splits)
qed


lemma Joint_parent_child [simp]:
  "parent (Joint n t p c ax lim si ci hi) = p" "child (Joint n t p c ax lim si ci hi) = c"
  by (simp_all add: Joint_def Let_def)

lemma calculate_layout_C:
  "calculate_layout tk_params links_C joints_C Map.empty
     = [Some ''L1'' \<mapsto> (IntNum 50, IntNum 50), Some ''L2'' \<mapsto> (IntNum 230, IntNum 50), Some ''L3'' \<mapsto> (IntNum 230, IntNum 150)]"
  by (simp add: calculate_layout_def root_links_def links_C_def joints_C_def mk_link_def
      tk_params_def layout_subtree.simps)

section \<open>Facts about the parser\<close>

lemma split_examples:
  "split ''position velocity'' = [''position'', ''velocity'']"
  "split ''position'' = [''position'']"
  by (simp_all add: split_def is_space_def)

section \<open>Facts about the persistence codec\<close>

lemma listify_simps [simp]:
  "listify PyNone = PyNone"
  "listify (PyBool b) = PyBool b"
  "listify (PyInt n) = PyInt n"
  "listify (PyFloat x) = PyFloat x"
  "listify (PyStr s) = PyStr s"
  "listify (PyList xs) = PyList (map listify xs)"
  "listify (PyTuple xs) = PyList (map listify xs)"
  "listify (PyDict kvs) = PyDict (map (map_prod id listify) kvs)"
  by (simp_all add: listify_def comp_def map_prod_def case_prod_unfold)

lemma ebind_Inr [simp]: "ebind (Inr x) f = f x"
  by (simp add: ebind_def)

lemma ebind_Inl [simp]: "ebind (Inl e) f = Inl e"
  by (simp add: ebind_def)

lemma Port_kwargs_roundtrip: "Port_kwargs (listify (asdict_port p)) = Inr (listify_port p)"
  by (cases p)
     (simp add: asdict_port_def Port_kwargs_def port_fields_def subscript_def keyword_def
        as_str_def as_bool_def as_optional_str_def listify_port_def split: option.splits)

lemma each_Port_kwargs_roundtrip:
  "each Port_kwargs (map (listify \<circ> asdict_port) ps) = Inr (map listify_port ps)"
  by (induction ps) (simp_all add: Port_kwargs_roundtrip)

lemma block_of_roundtrip: "block_of (listify (asdict_block b)) = Inr (listify_block b)"
  by (cases b)
     (simp add: asdict_block_def block_of_def subscript_def ports_of_def as_str_def as_int_def
        as_dict_def listify_block_def each_Port_kwargs_roundtrip)

lemma connection_of_roundtrip: "connection_of (listify (asdict_connection e)) = Inr e"
  by (cases e) (simp add: asdict_connection_def connection_of_def subscript_def as_str_def)

lemma load_blocks_roundtrip:
  "load_blocks (map (map_prod id listify \<circ> (\<lambda>(bid, block). (bid, asdict_block block))) bs) canvas
     = Inr (canvas\<lparr>blocks := fold (\<lambda>(bid, block). AList.update bid (listify_block block)) bs
                                (blocks canvas)\<rparr>)"
  by (induction bs arbitrary: canvas) (auto simp: block_of_roundtrip)

lemma load_connections_roundtrip:
  "load_connections (map (map_prod id listify \<circ> (\<lambda>(cid, conn). (cid, asdict_connection conn))) cs)
      canvas
     = Inr (canvas\<lparr>connections := fold (\<lambda>(cid, conn). AList.update cid conn) cs (connections canvas),
                    blocks := fold update_port_connection (map snd cs) (blocks canvas)\<rparr>)"
  by (induction cs arbitrary: canvas) (auto simp: connection_of_roundtrip)

lemma fold_update_fresh:
  "distinct (map fst xs) \<Longrightarrow> set (map fst xs) \<inter> set (map fst acc) = {} \<Longrightarrow>
     fold (\<lambda>(k, v). AList.update k (f v)) xs acc = acc @ map (map_prod id f) xs"
proof (induction xs arbitrary: acc)
  case Nil
  show ?case by simp
next
  case (Cons x xs)
  obtain k v where x: "x = (k, v)" by (cases x)
  from Cons.prems x have fresh: "map_of acc k = None"
    by (auto simp: map_of_eq_None_iff)
  have "fold (\<lambda>(k, v). AList.update k (f v)) xs (acc @ [(k, f v)])
      = (acc @ [(k, f v)]) @ map (map_prod id f) xs"
    using Cons.prems x by (intro Cons.IH) auto
  then show ?case
    by (simp add: x update_fresh[OF fresh] id_def)
qed

lemma json_load_save:
  "json_load (save_to_json c) =
     PyDict [(''blocks'', PyDict (map (map_prod id listify \<circ> (\<lambda>(bid, block). (bid, asdict_block block)))
                (blocks c))),
             (''connections'', PyDict (map (map_prod id listify \<circ> (\<lambda>(cid, conn). (cid, asdict_connection conn)))
                (connections c)))]"
  by (auto simp: save_to_json_def listify_def)

lemma load_save_fold:
  "load_from_json (save_to_json c) =
     Inr \<lparr>blocks = fold update_port_connection (map snd (connections c))
                     (fold (\<lambda>(bid, block). AList.update bid (listify_block block)) (blocks c) []),
          connections = fold (\<lambda>(cid, conn). AList.update cid conn) (connections c) []\<rparr>"
  by (simp add: load_from_json_def json_load_save subscript_def items_def
      load_blocks_roundtrip load_connections_roundtrip empty_canvas_def)

lemma map_of_listify:
  "map_of (map (map_prod id f) bs) k = map_option f (map_of bs k)"
  by (induction bs) auto

lemma update_listify:
  "AList.update k (f v) (map (map_prod id f) bs) = map (map_prod id f) (AList.update k v bs)"
  by (induction bs) auto

lemma find_listify_port:
  "find (\<lambda>p. port_id p = pid) (map listify_port ps)
     = map_option listify_port (find (\<lambda>p. port_id p = pid) ps)"
  by (induction ps) (auto simp: listify_port_def)

lemma update_first_listify_port:
  "update_first (\<lambda>p. port_id p = pid) (\<lambda>p. p\<lparr>connected_to := v\<rparr>) (map listify_port ps)
     = map listify_port (update_first (\<lambda>p. port_id p = pid) (\<lambda>p. p\<lparr>connected_to := v\<rparr>) ps)"
  by (induction ps) (auto simp: listify_port_def)

lemma get_port_listify:
  "get_port_by_id (listify_block b) pid = map_option listify_port (get_port_by_id b pid)"
  by (simp add: get_port_by_id_def listify_block_def find_listify_port find_app map_append[symmetric]
      del: map_append split: option.splits)

lemma set_connected_to_listify:
  "set_connected_to (listify_block b) pid v = listify_block (set_connected_to b pid v)"
  by (simp add: set_connected_to_def listify_block_def find_listify_port update_first_listify_port
      split: option.splits)

lemma update_port_connection_listify:
  "update_port_connection e (map (map_prod id listify_block) bs)
     = map (map_prod id listify_block) (update_port_connection e bs)"
  by (simp add: update_port_connection_def map_of_listify get_port_listify
      set_connected_to_listify update_listify split: option.splits)

lemma fold_update_port_connection_listify:
  "fold update_port_connection es (map (map_prod id listify_block) bs)
     = map (map_prod id listify_block) (fold update_port_connection es bs)"
  by (induction es arbitrary: bs) (simp_all add: update_port_connection_listify)

lemma load_save:
  assumes "distinct (map fst (blocks c))" "distinct (map fst (connections c))"
  shows "load_from_json (save_to_json c) = Inr (listify_canvas (rederive_backrefs c))"
proof -
  have b: "fold (\<lambda>(bid, block). AList.update bid (listify_block block)) (blocks c) []
      = map (map_prod id listify_block) (blocks c)"
    using fold_update_fresh[of "blocks c" "[]" listify_block] assms(1) by simp
  have e: "fold (\<lambda>(cid, conn). AList.update cid conn) (connections c) [] = connections c"
    using fold_update_fresh[of "connections c" "[]" "\<lambda>x. x"] assms(2)
    by (simp add: map_prod_def id_def case_prod_unfold)
  show ?thesis
    by (simp add: load_save_fold b e fold_update_port_connection_listify listify_canvas_def
        rederive_backrefs_def)
qed

lemma canvas_reconnected_eval:
  "canvas_reconnected =
     \<lparr>blocks = [(''A'', blk_A), (''B'', blk_B), (''C'', blk_C), (''S'', blk_S)],
      connections = [(''e1'', new_conn ''e1'' ''A'' ''a_out'' ''B'' ''b_in1'')]\<rparr>"
  by (simp add: canvas_reconnected_def second_connect_eval disconnect_ports_def new_conn_def
      get_port_examples set_connected_to_examples AList.delete_eq)

lemma rederive_examples:
  "rederive_backrefs canvas_connected = canvas_connected"
  "rederive_backrefs canvas_reconnected = canvas_connected"
  by (simp_all add: rederive_backrefs_def canvas_connected_eval canvas_reconnected_eval
      update_port_connection_def new_conn_def get_port_examples set_connected_to_examples)

lemma distinct_examples:
  "distinct (map fst (blocks canvas_connected))" "distinct (map fst (connections canvas_connected))"
  "distinct (map fst (blocks canvas_reconnected))" "distinct (map fst (connections canvas_reconnected))"
  by (simp_all add: canvas_connected_eval canvas_reconnected_eval)

lemma backref_examples:
  "backref canvas_reconnected ''B'' ''b_in1'' = Some None"
  "backref canvas_connected ''B'' ''b_in1'' = Some (Some ''a_out'')"
  "backref (listify_canvas canvas_connected) ''B'' ''b_in1'' = Some (Some ''a_out'')"
  by (simp_all add: backref_def canvas_connected_eval canvas_reconnected_eval get_port_examples
      listify_canvas_def get_port_listify listify_port_def mk_port_def)

section \<open>The block editor: connecting ports\<close>

text \<open>
  Claim C1. When both blocks and both ports resolve, \<^verbatim>\<open>connect_ports\<close> returns a
  connection exactly when the source port is an output, the target port is an input and
  their data types are compatible (one of them is \<^verbatim>\<open>"any"\<close>, or they are equal). A
  returned connection carries the four ids of the call, is stored in the connection map
  under its own id, and the target port's \<^verbatim>\<open>connected_to\<close> is the source port's id.
  In every other case (a block or a port that does not resolve, a direction or a type
  mismatch) the result is \<^verbatim>\<open>None\<close> and the canvas is unchanged; no branch raises.
\<close>

theorem connect_ports_spec:
  "(map_of (blocks c) sb = Some sblk \<and> map_of (blocks c) tb = Some tblk
      \<and> get_port_by_id sblk sp = Some a \<and> get_port_by_id tblk tp = Some b
    \<longrightarrow> ((snd (connect_ports c nid sb sp tb tp) \<noteq> None)
           = (\<not> is_input a \<and> is_input b
               \<and> (data_type a = ''any'' \<or> data_type b = ''any'' \<or> data_type a = data_type b))))
   \<and> (connect_ports c nid sb sp tb tp = (c', Some e)
    \<longrightarrow> e = new_conn nid sb sp tb tp
        \<and> map_of (connections c') nid = Some e
        \<and> (\<exists>sblk tblk a b. map_of (blocks c) sb = Some sblk \<and> map_of (blocks c) tb = Some tblk
              \<and> get_port_by_id sblk sp = Some a \<and> get_port_by_id tblk tp = Some b
              \<and> port_id a = sp
              \<and> map_of (blocks c') tb = Some (set_connected_to tblk tp (Some sp))
              \<and> get_port_by_id (set_connected_to tblk tp (Some sp)) tp
                   = Some (b\<lparr>connected_to := Some (port_id a)\<rparr>)))
   \<and> (connect_ports c nid sb sp tb tp = (c', None) \<longrightarrow> c' = c)
   \<and> (map_of (blocks c) sb = None \<or> map_of (blocks c) tb = None
        \<longrightarrow> connect_ports c nid sb sp tb tp = (c, None))
   \<and> (map_of (blocks c) sb = Some sblk \<and> map_of (blocks c) tb = Some tblk
        \<and> (get_port_by_id sblk sp = None \<or> get_port_by_id tblk tp = None)
        \<longrightarrow> connect_ports c nid sb sp tb tp = (c, None))"
proof (intro conjI impI)
  assume "map_of (blocks c) sb = Some sblk \<and> map_of (blocks c) tb = Some tblk
      \<and> get_port_by_id sblk sp = Some a \<and> get_port_by_id tblk tp = Some b"
  then show "(snd (connect_ports c nid sb sp tb tp) \<noteq> None)
           = (\<not> is_input a \<and> is_input b
               \<and> (data_type a = ''any'' \<or> data_type b = ''any'' \<or> data_type a = data_type b))"
    by (simp add: connect_ports_resolved)
next
  assume ok: "connect_ports c nid sb sp tb tp = (c', Some e)"
  from ok show "e = new_conn nid sb sp tb tp"
    by (rule connect_ports_SomeD)
  from ok show "map_of (connections c') nid = Some e"
    by (rule connect_ports_SomeD) (simp add: map_of_update)
  from ok show "\<exists>sblk tblk a b. map_of (blocks c) sb = Some sblk \<and> map_of (blocks c) tb = Some tblk
              \<and> get_port_by_id sblk sp = Some a \<and> get_port_by_id tblk tp = Some b
              \<and> port_id a = sp
              \<and> map_of (blocks c') tb = Some (set_connected_to tblk tp (Some sp))
              \<and> get_port_by_id (set_connected_to tblk tp (Some sp)) tp
                   = Some (b\<lparr>connected_to := Some (port_id a)\<rparr>)"
  proof (rule connect_ports_SomeD)
    fix sblk tblk a b
    assume "map_of (blocks c) sb = Some sblk" "map_of (blocks c) tb = Some tblk"
      "get_port_by_id sblk sp = Some a" "get_port_by_id tblk tp = Some b"
      "c' = c\<lparr>blocks := AList.update tb (set_connected_to tblk tp (Some sp)) (blocks c),
            connections := AList.update nid e (connections c)\<rparr>"
    then show ?thesis
      by (intro exI[of _ sblk] exI[of _ tblk] exI[of _ a] exI[of _ b])
         (simp add: map_of_update get_port_set_connected_to get_port_by_id_id)
  qed
next
  assume "connect_ports c nid sb sp tb tp = (c', None)"
  then show "c' = c" by (rule connect_ports_NoneD)
next
  assume "map_of (blocks c) sb = None \<or> map_of (blocks c) tb = None"
  then show "connect_ports c nid sb sp tb tp = (c, None)" by (rule connect_ports_no_block)
next
  assume "map_of (blocks c) sb = Some sblk \<and> map_of (blocks c) tb = Some tblk
        \<and> (get_port_by_id sblk sp = None \<or> get_port_by_id tblk tp = None)"
  then show "connect_ports c nid sb sp tb tp = (c, None)"
    by (auto intro: connect_ports_no_port)
qed

text \<open>
  The theorem at the four-block example canvas: an accepted connection, a direction
  mismatch, a type mismatch (number into string), an unknown block and an unknown port.
\<close>

theorem connect_ports_spec_witness:
  "snd (connect_ports canvas_ABC ''e1'' ''A'' ''a_out'' ''B'' ''b_in1'') \<noteq> None
   \<and> map_of (connections (fst (connect_ports canvas_ABC ''e1'' ''A'' ''a_out'' ''B'' ''b_in1''))) ''e1''
       = Some (new_conn ''e1'' ''A'' ''a_out'' ''B'' ''b_in1'')
   \<and> connect_ports canvas_ABC ''e1'' ''B'' ''b_in1'' ''A'' ''a_out'' = (canvas_ABC, None)
   \<and> connect_ports canvas_ABC ''e1'' ''A'' ''a_out'' ''S'' ''s_in'' = (canvas_ABC, None)
   \<and> connect_ports canvas_ABC ''e1'' ''Z'' ''a_out'' ''B'' ''b_in1'' = (canvas_ABC, None)
   \<and> connect_ports canvas_ABC ''e1'' ''A'' ''zz'' ''B'' ''b_in1'' = (canvas_ABC, None)"
proof -
  have A: "map_of (blocks canvas_ABC) ''A'' = Some blk_A"
    and B: "map_of (blocks canvas_ABC) ''B'' = Some blk_B"
    and S: "map_of (blocks canvas_ABC) ''S'' = Some blk_S"
    and Z: "map_of (blocks canvas_ABC) ''Z'' = None"
    by (simp_all add: canvas_ABC_eval)
  have a: "get_port_by_id blk_A ''a_out'' = Some (mk_port ''a_out'' ''value'' ''number'' False)"
    and b: "get_port_by_id blk_B ''b_in1'' = Some (mk_port ''b_in1'' ''input1'' ''number'' True)"
    and s: "get_port_by_id blk_S ''s_in'' = Some (mk_port ''s_in'' ''value'' ''string'' True)"
    and zz: "get_port_by_id blk_A ''zz'' = None"
    by (simp_all add: get_port_by_id_def blk_A_def blk_B_def blk_S_def mk_block_def mk_port_def)
  note ab = connect_ports_spec [where c = canvas_ABC and nid = "''e1''" and sb = "''A''"
      and sp = "''a_out''" and tb = "''B''" and tp = "''b_in1''" and sblk = blk_A and tblk = blk_B
      and a = "mk_port ''a_out'' ''value'' ''number'' False"
      and b = "mk_port ''b_in1'' ''input1'' ''number'' True"
      and c' = "fst (connect_ports canvas_ABC ''e1'' ''A'' ''a_out'' ''B'' ''b_in1'')"
      and e = "new_conn ''e1'' ''A'' ''a_out'' ''B'' ''b_in1''"]
  have ok: "snd (connect_ports canvas_ABC ''e1'' ''A'' ''a_out'' ''B'' ''b_in1'') \<noteq> None"
    using ab A B a b by (simp add: mk_port_def)
  then obtain e where e: "connect_ports canvas_ABC ''e1'' ''A'' ''a_out'' ''B'' ''b_in1''
      = (fst (connect_ports canvas_ABC ''e1'' ''A'' ''a_out'' ''B'' ''b_in1''), Some e)"
    by (cases "connect_ports canvas_ABC ''e1'' ''A'' ''a_out'' ''B'' ''b_in1''") auto
  have reg: "map_of (connections (fst (connect_ports canvas_ABC ''e1'' ''A'' ''a_out'' ''B'' ''b_in1''))) ''e1''
       = Some (new_conn ''e1'' ''A'' ''a_out'' ''B'' ''b_in1'')"
    using connect_ports_spec [where c = canvas_ABC and nid = "''e1''" and sb = "''A''"
      and sp = "''a_out''" and tb = "''B''" and tp = "''b_in1''"
      and c' = "fst (connect_ports canvas_ABC ''e1'' ''A'' ''a_out'' ''B'' ''b_in1'')"
      and e = e] e by simp
  have ba: "snd (connect_ports canvas_ABC ''e1'' ''B'' ''b_in1'' ''A'' ''a_out'') = None"
    using connect_ports_spec [where c = canvas_ABC and nid = "''e1''" and sb = "''B''"
      and sp = "''b_in1''" and tb = "''A''" and tp = "''a_out''" and sblk = blk_B and tblk = blk_A
      and b = "mk_port ''a_out'' ''value'' ''number'' False"
      and a = "mk_port ''b_in1'' ''input1'' ''number'' True"] A B a b
    by (simp add: mk_port_def)
  have dir: "connect_ports canvas_ABC ''e1'' ''B'' ''b_in1'' ''A'' ''a_out'' = (canvas_ABC, None)"
    using connect_ports_spec [where c = canvas_ABC and nid = "''e1''" and sb = "''B''"
      and sp = "''b_in1''" and tb = "''A''" and tp = "''a_out''"
      and c' = "fst (connect_ports canvas_ABC ''e1'' ''B'' ''b_in1'' ''A'' ''a_out'')"] ba
    by (cases "connect_ports canvas_ABC ''e1'' ''B'' ''b_in1'' ''A'' ''a_out''") simp
  have mis: "snd (connect_ports canvas_ABC ''e1'' ''A'' ''a_out'' ''S'' ''s_in'') = None"
    using connect_ports_spec [where c = canvas_ABC and nid = "''e1''" and sb = "''A''"
      and sp = "''a_out''" and tb = "''S''" and tp = "''s_in''" and sblk = blk_A and tblk = blk_S
      and a = "mk_port ''a_out'' ''value'' ''number'' False"
      and b = "mk_port ''s_in'' ''value'' ''string'' True"] A S a s
    by (simp add: mk_port_def)
  have tym: "connect_ports canvas_ABC ''e1'' ''A'' ''a_out'' ''S'' ''s_in'' = (canvas_ABC, None)"
    using connect_ports_spec [where c = canvas_ABC and nid = "''e1''" and sb = "''A''"
      and sp = "''a_out''" and tb = "''S''" and tp = "''s_in''"
      and c' = "fst (connect_ports canvas_ABC ''e1'' ''A'' ''a_out'' ''S'' ''s_in'')"] mis
    by (cases "connect_ports canvas_ABC ''e1'' ''A'' ''a_out'' ''S'' ''s_in''") simp
  have nob: "connect_ports canvas_ABC ''e1'' ''Z'' ''a_out'' ''B'' ''b_in1'' = (canvas_ABC, None)"
    using connect_ports_spec [where c = canvas_ABC and nid = "''e1''" and sb = "''Z''"
      and sp = "''a_out''" and tb = "''B''" and tp = "''b_in1''"] Z by simp
  have nop: "connect_ports canvas_ABC ''e1'' ''A'' ''zz'' ''B'' ''b_in1'' = (canvas_ABC, None)"
    using connect_ports_spec [where c = canvas_ABC and nid = "''e1''" and sb = "''A''"
      and sp = "''zz''" and tb = "''B''" and tp = "''b_in1''" and sblk = blk_A and tblk = blk_B]
      A B zz by simp
  from ok reg dir tym nob nop show ?thesis by simp
qed

section \<open>Several edges into one input port\<close>

text \<open>
  Claim C2, as the code has it. \<^verbatim>\<open>connect_ports\<close> never looks at the connection map:
  its answer and the blocks it returns are the same whatever connections exist. So a
  second connect into an input port that already is the target of an edge is accepted
  under the same conditions as the first; with a fresh id it appends the new edge after
  all existing ones, the earlier edges into that port included, and the port's single
  \<^verbatim>\<open>connected_to\<close> is overwritten with the new source port id. The connection map may
  therefore hold any number of edges into one input port (and out of one output port).
\<close>

theorem connect_ports_ignores_existing_edges:
  "snd (connect_ports (c\<lparr>connections := cs\<rparr>) nid sb sp tb tp) = snd (connect_ports c nid sb sp tb tp)
   \<and> blocks (fst (connect_ports (c\<lparr>connections := cs\<rparr>) nid sb sp tb tp))
       = blocks (fst (connect_ports c nid sb sp tb tp))
   \<and> (connect_ports c nid sb sp tb tp = (c', Some e) \<and> map_of (connections c) nid = None
        \<longrightarrow> connections c' = connections c @ [(nid, e)]
          \<and> edges_into c' tb tp = edges_into c tb tp @ [(nid, e)])
   \<and> (connect_ports c nid sb sp tb tp = (c', Some e)
        \<longrightarrow> (\<exists>tblk b. map_of (blocks c') tb = Some tblk \<and> get_port_by_id tblk tp = Some b
              \<and> connected_to b = Some sp))"
proof (intro conjI impI)
  show "snd (connect_ports (c\<lparr>connections := cs\<rparr>) nid sb sp tb tp)
      = snd (connect_ports c nid sb sp tb tp)"
    by (simp add: connect_ports_def Let_def split: option.splits)
  show "blocks (fst (connect_ports (c\<lparr>connections := cs\<rparr>) nid sb sp tb tp))
       = blocks (fst (connect_ports c nid sb sp tb tp))"
    by (simp add: connect_ports_def Let_def split: option.splits)
next
  assume h: "connect_ports c nid sb sp tb tp = (c', Some e) \<and> map_of (connections c) nid = None"
  then have ok: "connect_ports c nid sb sp tb tp = (c', Some e)"
    and fresh: "map_of (connections c) nid = None" by simp_all
  from ok have e: "e = new_conn nid sb sp tb tp"
    and cs': "connections c' = AList.update nid e (connections c)"
    by (rule connect_ports_SomeD, simp)+
  from cs' fresh show 1: "connections c' = connections c @ [(nid, e)]"
    by (simp add: update_fresh)
  show "edges_into c' tb tp = edges_into c tb tp @ [(nid, e)]"
    by (simp add: edges_into_def 1) (simp add: e new_conn_def)
next
  assume ok: "connect_ports c nid sb sp tb tp = (c', Some e)"
  from ok show "\<exists>tblk b. map_of (blocks c') tb = Some tblk \<and> get_port_by_id tblk tp = Some b
              \<and> connected_to b = Some sp"
  proof (rule connect_ports_SomeD)
    fix sblk tblk a b
    assume "map_of (blocks c) tb = Some tblk" "get_port_by_id tblk tp = Some b"
      "c' = c\<lparr>blocks := AList.update tb (set_connected_to tblk tp (Some sp)) (blocks c),
            connections := AList.update nid e (connections c)\<rparr>"
    then show ?thesis
      by (intro exI[of _ "set_connected_to tblk tp (Some sp)"]
            exI[of _ "b\<lparr>connected_to := Some sp\<rparr>"])
         (simp add: map_of_update get_port_set_connected_to)
  qed
qed

text \<open>
  The claim as stated fails: after \<^verbatim>\<open>A.a_out \<rightarrow> B.b_in1\<close>, connecting
  \<^verbatim>\<open>C.c_out \<rightarrow> B.b_in1\<close> is not rejected and does not replace the first edge; both
  edges target \<^verbatim>\<open>b_in1\<close>.
\<close>

theorem two_edges_into_one_input_counterexample:
  "snd (connect_ports canvas_connected ''e2'' ''C'' ''c_out'' ''B'' ''b_in1'') \<noteq> None
   \<and> edges_into (fst (connect_ports canvas_connected ''e2'' ''C'' ''c_out'' ''B'' ''b_in1'')) ''B'' ''b_in1''
      = [(''e1'', new_conn ''e1'' ''A'' ''a_out'' ''B'' ''b_in1''),
         (''e2'', new_conn ''e2'' ''C'' ''c_out'' ''B'' ''b_in1'')]"
  by (simp add: second_connect_eval edges_into_def new_conn_def)

text \<open>The amended statement at the same two calls.\<close>

theorem connect_ports_ignores_existing_edges_witness:
  "connections (fst (connect_ports canvas_connected ''e2'' ''C'' ''c_out'' ''B'' ''b_in1''))
      = [(''e1'', new_conn ''e1'' ''A'' ''a_out'' ''B'' ''b_in1''),
         (''e2'', new_conn ''e2'' ''C'' ''c_out'' ''B'' ''b_in1'')]
   \<and> length (edges_into (fst (connect_ports canvas_connected ''e2'' ''C'' ''c_out'' ''B'' ''b_in1''))
        ''B'' ''b_in1'') = 2
   \<and> (\<exists>tblk b. map_of (blocks (fst (connect_ports canvas_connected ''e2'' ''C'' ''c_out'' ''B'' ''b_in1'')))
          ''B'' = Some tblk
        \<and> get_port_by_id tblk ''b_in1'' = Some b \<and> connected_to b = Some ''c_out'')"
proof -
  let ?c' = "fst (connect_ports canvas_connected ''e2'' ''C'' ''c_out'' ''B'' ''b_in1'')"
  let ?e = "new_conn ''e2'' ''C'' ''c_out'' ''B'' ''b_in1''"
  have ok: "connect_ports canvas_connected ''e2'' ''C'' ''c_out'' ''B'' ''b_in1'' = (?c', Some ?e)"
    by (simp add: second_connect_eval)
  have fresh: "map_of (connections canvas_connected) ''e2'' = None"
    by (simp add: canvas_connected_eval)
  note r = connect_ports_ignores_existing_edges [where c = canvas_connected and nid = "''e2''"
      and sb = "''C''" and sp = "''c_out''" and tb = "''B''" and tp = "''b_in1''" and c' = ?c'
      and e = ?e]
  from r ok fresh have 1: "connections ?c' = connections canvas_connected @ [(''e2'', ?e)]"
    and 2: "edges_into ?c' ''B'' ''b_in1'' = edges_into canvas_connected ''B'' ''b_in1'' @ [(''e2'', ?e)]"
    by blast+
  from r ok have 3: "\<exists>tblk b. map_of (blocks ?c') ''B'' = Some tblk
        \<and> get_port_by_id tblk ''b_in1'' = Some b \<and> connected_to b = Some ''c_out''"
    by blast
  have old: "edges_into canvas_connected ''B'' ''b_in1''
      = [(''e1'', new_conn ''e1'' ''A'' ''a_out'' ''B'' ''b_in1'')]"
    by (simp add: edges_into_def canvas_connected_eval new_conn_def)
  from 1 2 3 old show ?thesis by (simp add: canvas_connected_eval)
qed

section \<open>The layout pass against the reference placement\<close>

text \<open>
  Claim C3. Reading the links as nodes, the joints as edges (parent to child) and the
  three spacing values as the parameters, \<^verbatim>\<open>_calculate_layout\<close> computes exactly the
  reference placement of the specification: its result satisfies the reference relation
  (root detection with the first-node fallback, the i-th root starting at
  \<open>i * verticalSpacing * 2\<close>, the k-th child placed one level deeper at
  \<open>yOffset + k * verticalSpacing\<close>), and any result of the reference relation is the
  computed one. Every position present before the pass is unchanged after it, and a link
  visited without a position gets \<open>x = margin + depth * spacing_x\<close>,
  \<open>y = margin + y_offset\<close>.
\<close>

theorem calculate_layout_refines_reference:
  "reference_layout (params_of P) (graph_of links joints) L (calculate_layout P links joints L)
   \<and> (reference_layout (params_of P) (graph_of links joints) L L'
        \<longrightarrow> L' = calculate_layout P links joints L)
   \<and> (L n = Some xy \<longrightarrow> calculate_layout P links joints L n = Some xy)
   \<and> (L n = None \<longrightarrow>
        layout_subtree P joints n depth y_offset L n
          = Some (IntNum (margin P + depth * spacing_x P), IntNum (margin P + y_offset)))"
proof (intro conjI impI)
  show "reference_layout (params_of P) (graph_of links joints) L (calculate_layout P links joints L)"
    unfolding reference_layout_def calculate_layout_def root_links_reference
    by (rule layout_roots_sound)
next
  assume "reference_layout (params_of P) (graph_of links joints) L L'"
  then have "place_roots (params_of P) (graph_of links joints) (root_links links joints) 0 L L'"
    by (simp add: reference_layout_def root_links_reference)
  then show "L' = calculate_layout P links joints L"
    unfolding calculate_layout_def by (rule place_roots_complete) (rule refl)+
next
  assume "L n = Some xy"
  moreover have "L \<subseteq>\<^sub>m calculate_layout P links joints L"
    unfolding calculate_layout_def by (rule layout_roots_sticky)
  ultimately show "calculate_layout P links joints L n = Some xy"
    by (auto simp: map_le_def dom_def)
next
  assume None: "L n = None"
  let ?L' = "L(n \<mapsto> (IntNum (margin P + depth * spacing_x P), IntNum (margin P + y_offset)))"
  have "?L' \<subseteq>\<^sub>m layout_children P joints (map child (filter (\<lambda>j. parent j = n) joints)) 0 depth
      y_offset ?L'"
    by (rule layout_sticky)
  moreover have "?L' n = Some (IntNum (margin P + depth * spacing_x P), IntNum (margin P + y_offset))" by simp
  ultimately have "layout_children P joints (map child (filter (\<lambda>j. parent j = n) joints)) 0 depth
      y_offset ?L' n = Some (IntNum (margin P + depth * spacing_x P), IntNum (margin P + y_offset))"
    by (auto simp: map_le_def dom_def)
  then show "layout_subtree P joints n depth y_offset L n
          = Some (IntNum (margin P + depth * spacing_x P), IntNum (margin P + y_offset))"
    by (simp only: layout_subtree_new[where L = L and name = n, OF None])
qed

text \<open>
  Three links \<^verbatim>\<open>L1\<close>, \<^verbatim>\<open>L2\<close>, \<^verbatim>\<open>L3\<close> with joints \<^verbatim>\<open>L1 \<rightarrow> L2\<close> and
  \<^verbatim>\<open>L1 \<rightarrow> L3\<close>, laid out from the empty layout and from one with \<^verbatim>\<open>L2\<close> placed by
  hand.
\<close>

theorem calculate_layout_refines_reference_witness:
  "reference_layout (params_of tk_params) (graph_of links_C joints_C) Map.empty
      [Some ''L1'' \<mapsto> (IntNum 50, IntNum 50), Some ''L2'' \<mapsto> (IntNum 230, IntNum 50), Some ''L3'' \<mapsto> (IntNum 230, IntNum 150)]
   \<and> calculate_layout tk_params links_C joints_C Map.empty
        = [Some ''L1'' \<mapsto> (IntNum 50, IntNum 50), Some ''L2'' \<mapsto> (IntNum 230, IntNum 50),
           Some ''L3'' \<mapsto> (IntNum 230, IntNum 150)]
   \<and> calculate_layout tk_params links_C joints_C [Some ''L2'' \<mapsto> (IntNum 7, IntNum 9)] (Some ''L2'') = Some (IntNum 7, IntNum 9)
   \<and> layout_subtree tk_params joints_C (Some ''L3'') 1 100 [Some ''L2'' \<mapsto> (IntNum 7, IntNum 9)] (Some ''L3'')
        = Some (IntNum 230, IntNum 150)"
proof -
  note r = calculate_layout_refines_reference [where P = tk_params and links = links_C
      and joints = joints_C]
  have 1: "reference_layout (params_of tk_params) (graph_of links_C joints_C) Map.empty
      (calculate_layout tk_params links_C joints_C Map.empty)"
    using r [where L = Map.empty] by blast
  have 2: "calculate_layout tk_params links_C joints_C [Some ''L2'' \<mapsto> (IntNum 7, IntNum 9)] (Some ''L2'') = Some (IntNum 7, IntNum 9)"
    using r [where L = "[Some ''L2'' \<mapsto> (IntNum 7, IntNum 9)]" and n = "Some ''L2''" and xy = "(IntNum 7, IntNum 9)"]
    by simp
  have 3: "layout_subtree tk_params joints_C (Some ''L3'') 1 100 [Some ''L2'' \<mapsto> (IntNum 7, IntNum 9)] (Some ''L3'')
        = Some (IntNum (margin tk_params + 1 * spacing_x tk_params), IntNum (margin tk_params + 100))"
    using r [where L = "[Some ''L2'' \<mapsto> (IntNum 7, IntNum 9)]" and n = "Some ''L3''" and depth = 1
        and y_offset = 100]
    by simp
  have 4: "margin tk_params + 1 * spacing_x tk_params = 230" "margin tk_params + 100 = 150"
    by (simp_all add: tk_params_def)
  note 1 = 1 [unfolded calculate_layout_C]
  have 5: "[Some ''L1'' \<mapsto> (IntNum 50, IntNum 50), Some ''L2'' \<mapsto> (IntNum 230, IntNum 50),
           Some ''L3'' \<mapsto> (IntNum 230, IntNum 150)]
      = calculate_layout tk_params links_C joints_C Map.empty"
    using r [where L = Map.empty
        and L' = "[Some ''L1'' \<mapsto> (IntNum 50, IntNum 50), Some ''L2'' \<mapsto> (IntNum 230, IntNum 50),
           Some ''L3'' \<mapsto> (IntNum 230, IntNum 150)]"] 1
    by blast
  from 1 5 [symmetric] 2 3 [unfolded 4] show ?thesis
    by (intro conjI)
qed

section \<open>Saving and loading a canvas\<close>

text \<open>
  Claim C4, as the code has it. For a canvas whose block map and connection map have
  distinct keys (as Python dicts have), \<^verbatim>\<open>load_from_json\<close> of what \<^verbatim>\<open>save_to_json\<close>
  wrote succeeds and returns the canvas with two changes: every tuple in a port position
  or a property value is a list, and the back-references are derived again: for each
  connection, in map order, whose target block and target port resolve, the first port
  with that id on that block gets the connection's source port id; every other
  \<^verbatim>\<open>connected_to\<close> is kept as stored. Block keys and their order, every other block and
  port field, and the connection map are the same. Where deriving the back-references
  again changes nothing, the result is the canvas itself up to tuples.
\<close>

theorem load_save_roundtrip:
  "distinct (map fst (blocks c)) \<and> distinct (map fst (connections c)) \<longrightarrow>
     load_from_json (save_to_json c) = Inr (listify_canvas (rederive_backrefs c))
     \<and> connections (listify_canvas (rederive_backrefs c)) = connections c
     \<and> map fst (blocks (listify_canvas (rederive_backrefs c))) = map fst (blocks c)
     \<and> (rederive_backrefs c = c \<longrightarrow> load_from_json (save_to_json c) = Inr (listify_canvas c))"
proof (intro impI, elim conjE)
  assume d: "distinct (map fst (blocks c))" "distinct (map fst (connections c))"
  have keys_step: "\<And>e bs. map fst (update_port_connection e bs) = map fst bs"
    by (auto simp: update_port_connection_def update_keys_present split: option.splits)
  have keys: "\<And>es bs. map fst (fold update_port_connection es bs) = map fst bs"
  proof -
    fix es :: "connection list" and bs :: "(string \<times> block) list"
    show "map fst (fold update_port_connection es bs) = map fst bs"
      by (induction es arbitrary: bs) (simp_all add: keys_step)
  qed
  have 1: "load_from_json (save_to_json c) = Inr (listify_canvas (rederive_backrefs c))"
    using d by (rule load_save)
  have 2: "connections (listify_canvas (rederive_backrefs c)) = connections c"
    by (simp add: listify_canvas_def rederive_backrefs_def)
  have 3: "map fst (blocks (listify_canvas (rederive_backrefs c))) = map fst (blocks c)"
    by (simp add: listify_canvas_def rederive_backrefs_def keys comp_def)
  from 1 2 3 show "load_from_json (save_to_json c) = Inr (listify_canvas (rederive_backrefs c))
     \<and> connections (listify_canvas (rederive_backrefs c)) = connections c
     \<and> map fst (blocks (listify_canvas (rederive_backrefs c))) = map fst (blocks c)
     \<and> (rederive_backrefs c = c \<longrightarrow> load_from_json (save_to_json c) = Inr (listify_canvas c))"
    by auto
qed

text \<open>
  The claim as stated fails. Connect \<^verbatim>\<open>A.a_out \<rightarrow> B.b_in1\<close> (edge \<^verbatim>\<open>e1\<close>), connect
  \<^verbatim>\<open>C.c_out \<rightarrow> B.b_in1\<close> (edge \<^verbatim>\<open>e2\<close>), disconnect \<^verbatim>\<open>e2\<close>: the port's
  back-reference is \<^verbatim>\<open>None\<close> while \<^verbatim>\<open>e1\<close> is still in the connection map. After saving
  and loading, the back-reference is \<^verbatim>\<open>a_out\<close>.
\<close>

theorem roundtrip_changes_backref_counterexample:
  "load_from_json (save_to_json canvas_reconnected) = Inr (listify_canvas canvas_connected)
   \<and> backref canvas_reconnected ''B'' ''b_in1'' = Some None
   \<and> backref (listify_canvas canvas_connected) ''B'' ''b_in1'' = Some (Some ''a_out'')
   \<and> connections canvas_reconnected = [(''e1'', new_conn ''e1'' ''A'' ''a_out'' ''B'' ''b_in1'')]"
  using load_save [OF distinct_examples(3,4)]
  by (simp add: rederive_examples backref_examples) (simp add: canvas_reconnected_eval)

text \<open>The amended statement at the canvas after the first connect and at the one above.\<close>

theorem load_save_roundtrip_witness:
  "load_from_json (save_to_json canvas_connected) = Inr (listify_canvas canvas_connected)
   \<and> connections (listify_canvas canvas_connected) = connections canvas_connected
   \<and> load_from_json (save_to_json canvas_reconnected) = Inr (listify_canvas canvas_connected)
   \<and> listify_port (mk_port ''a_out'' ''value'' ''number'' False)
       = (mk_port ''a_out'' ''value'' ''number'' False)\<lparr>position := PyList [PyInt 0, PyInt 0]\<rparr>"
proof -
  have d1: "distinct (map fst (blocks canvas_connected)) \<and> distinct (map fst (connections canvas_connected))"
    and d2: "distinct (map fst (blocks canvas_reconnected))
       \<and> distinct (map fst (connections canvas_reconnected))"
    using distinct_examples by simp_all
  note r1 = load_save_roundtrip [of canvas_connected, THEN mp, OF d1, unfolded rederive_examples]
  note r2 = load_save_roundtrip [of canvas_reconnected, THEN mp, OF d2, unfolded rederive_examples]
  have p: "listify_port (mk_port ''a_out'' ''value'' ''number'' False)
       = (mk_port ''a_out'' ''value'' ''number'' False)\<lparr>position := PyList [PyInt 0, PyInt 0]\<rparr>"
    by (simp add: listify_port_def mk_port_def)
  from r1 r2 p show ?thesis by simp
qed

section \<open>Back-references after removing a block\<close>

text \<open>
  Claim C5 at a concrete canvas. After \<^verbatim>\<open>A.a_out \<rightarrow> B.b_in1\<close> no back-reference
  dangles. \<^verbatim>\<open>remove_block\<close> of block \<^verbatim>\<open>A\<close> deletes the edge but leaves
  \<^verbatim>\<open>b_in1.connected_to = "a_out"\<close>, and no port \<^verbatim>\<open>a_out\<close> exists any more:
  the back-reference dangles. \<^verbatim>\<open>disconnect_ports\<close> on the same edge clears it.
\<close>

theorem remove_block_leaves_dangling_backref:
  "dangling_backrefs canvas_connected = []
   \<and> dangling_backrefs (remove_block canvas_connected ''A'')
       = [(mk_port ''b_in1'' ''input1'' ''number'' True)\<lparr>connected_to := Some ''a_out''\<rparr>]
   \<and> connections (remove_block canvas_connected ''A'') = []
   \<and> dangling_backrefs (disconnect_ports canvas_connected ''e1'') = []"
proof -
  have rm: "remove_block canvas_connected ''A''
      = \<lparr>blocks = [(''B'', blk_B_connected ''a_out''), (''C'', blk_C), (''S'', blk_S)],
         connections = []\<rparr>"
    by (simp add: remove_block_def canvas_connected_eval new_conn_def AList.delete_eq)
  have dc: "disconnect_ports canvas_connected ''e1''
      = \<lparr>blocks = [(''A'', blk_A), (''B'', blk_B), (''C'', blk_C), (''S'', blk_S)],
         connections = []\<rparr>"
    by (simp add: disconnect_ports_def canvas_connected_eval new_conn_def AList.delete_eq
        get_port_examples set_connected_to_examples)
  have 1: "dangling_backrefs canvas_connected = []"
    by (simp add: canvas_connected_eval dangling_backrefs_def all_ports_def dangling_def
        blk_A_def blk_B_connected_def blk_C_def blk_S_def mk_block_def mk_port_def)
  have 2: "dangling_backrefs (remove_block canvas_connected ''A'')
       = [(mk_port ''b_in1'' ''input1'' ''number'' True)\<lparr>connected_to := Some ''a_out''\<rparr>]"
    by (simp add: rm dangling_backrefs_def all_ports_def dangling_def
        blk_B_connected_def blk_C_def blk_S_def mk_block_def mk_port_def)
  have 3: "dangling_backrefs (disconnect_ports canvas_connected ''e1'') = []"
    by (simp add: dc dangling_backrefs_def all_ports_def dangling_def
        blk_A_def blk_B_def blk_C_def blk_S_def mk_block_def mk_port_def)
  from 1 2 3 rm show ?thesis by simp
qed


section \<open>Default interfaces of a joint\<close>

text \<open>
  Claim C6. A joint constructed with empty (or absent) state and command interface lists
  gets state interfaces position, velocity and command interface position when its type is
  revolute, prismatic or continuous, and two empty lists when its type is fixed; an
  interface list supplied non-empty is kept as it is.
\<close>

theorem joint_default_interfaces:
  "(si \<in> {None, Some []} \<and> ci \<in> {None, Some []} \<and> t \<in> {''revolute'', ''prismatic'', ''continuous''}
      \<longrightarrow> state_interfaces (Joint n (Some t) p c ax lim si ci hi) = [Some ''position'', Some ''velocity'']
        \<and> command_interfaces (Joint n (Some t) p c ax lim si ci hi) = [Some ''position''])
   \<and> (si \<in> {None, Some []} \<and> ci \<in> {None, Some []}
      \<longrightarrow> state_interfaces (Joint n (Some ''fixed'') p c ax lim si ci hi) = []
        \<and> command_interfaces (Joint n (Some ''fixed'') p c ax lim si ci hi) = [])
   \<and> (xs \<noteq> [] \<longrightarrow> state_interfaces (Joint n jt p c ax lim (Some xs) ci hi) = xs)
   \<and> (ys \<noteq> [] \<longrightarrow> command_interfaces (Joint n jt p c ax lim si (Some ys) hi) = ys)"
  by (auto simp: Joint_def moving_joint_types_def Let_def split: option.splits)

text \<open>A revolute joint, a fixed joint and two joints with supplied interface lists.\<close>

theorem joint_default_interfaces_witness:
  "state_interfaces (Joint (Some ''j1'') (Some ''revolute'') (Some ''base'') (Some ''arm'')
       None None (Some []) (Some []) None) = [Some ''position'', Some ''velocity'']
   \<and> command_interfaces (Joint (Some ''j1'') (Some ''revolute'') (Some ''base'') (Some ''arm'')
       None None (Some []) (Some []) None) = [Some ''position'']
   \<and> state_interfaces (Joint (Some ''j2'') (Some ''fixed'') (Some ''base'') (Some ''arm'')
       None None None (Some []) None) = []
   \<and> command_interfaces (Joint (Some ''j2'') (Some ''fixed'') (Some ''base'') (Some ''arm'')
       None None None (Some []) None) = []
   \<and> state_interfaces (Joint (Some ''j3'') (Some ''fixed'') (Some ''base'') (Some ''arm'')
       None None (Some [Some ''effort'']) None None) = [Some ''effort'']
   \<and> command_interfaces (Joint (Some ''j3'') (Some ''revolute'') (Some ''base'') (Some ''arm'')
       None None None (Some [Some ''velocity'']) None) = [Some ''velocity'']"
  using joint_default_interfaces [where si = "Some []" and ci = "Some []" and t = "''revolute''"
      and n = "Some ''j1''" and p = "Some ''base''" and c = "Some ''arm''" and ax = None
      and lim = None and hi = None and xs = "[Some ''effort'']" and jt = "Some ''fixed''"
      and ys = "[Some ''velocity'']"]
    joint_default_interfaces [where si = None and ci = "Some []" and t = "''revolute''"
      and n = "Some ''j2''" and p = "Some ''base''" and c = "Some ''arm''" and ax = None
      and lim = None and hi = None and xs = "[Some ''effort'']" and jt = "Some ''fixed''"
      and ys = "[Some ''velocity'']"]
  by (simp add: Joint_def moving_joint_types_def Let_def)
section \<open>Interfaces declared in a gazebo plugin\<close>

text \<open>
  Claim C7 at a concrete robot description: links \<^verbatim>\<open>base\<close> and \<^verbatim>\<open>arm\<close>, one revolute
  joint whose \<^verbatim>\<open>gazebo/plugin[@name='gazebo_ros_control']\<close> child holds
  \<^verbatim>\<open><command_interface>position</command_interface>\<close>. The parser reads
  \<^verbatim>\<open>command_interfaces.text\<close>, the list, where it means \<^verbatim>\<open>command_ifaces.text\<close>, the
  element: \<^verbatim>\<open>AttributeError\<close>, and the parse ends in \<^verbatim>\<open>sys.exit(1)\<close>, whatever
  \<^verbatim>\<open>float\<close> does. The same document with a \<^verbatim>\<open>state_interface\<close> element instead parses,
  and the joint's state interfaces are the tokens of its text.
\<close>

theorem gazebo_command_interface_aborts_parse:
  "parse to_float (gazebo_robot ''command_interface'' ''position'') = Inl AttributeError
   \<and> parse to_float (gazebo_robot ''state_interface'' ''position velocity'')
       = Inr ([mk_link ''base'', mk_link ''arm''],
              [Joint (Some ''shoulder'') (Some ''revolute'') (Some ''base'') (Some ''arm'') None None
                 (Some [Some ''position'', Some ''velocity'']) (Some []) None])"
proof -
  have kids: "\<And>t x. findall ''link'' (gazebo_robot t x) = [leaf ''link'' [(''name'', ''base'')], leaf ''link'' [(''name'', ''arm'')]]"
    "\<And>t x. findall ''joint'' (gazebo_robot t x) = [gazebo_joint t x]"
    by (simp_all add: gazebo_robot_def gazebo_joint_def findall_def leaf_def)
  have pl: "\<And>n. parse_link (leaf ''link'' [(''name'', n)]) = mk_link n"
    by (simp add: parse_link_def leaf_def get_def findall_def find_child_def mk_link_def)
  have links: "\<And>t x. fold (\<lambda>link_elem links. case parse_link link_elem of (name, l) \<Rightarrow> AList.update name l links)
                    (findall ''link'' (gazebo_robot t x)) [] = [mk_link ''base'', mk_link ''arm'']"
    by (simp add: kids pl) (simp add: mk_link_def)
  have ax: "\<And>t x. parse_axis to_float (gazebo_joint t x) = Inr None"
    and lim: "\<And>t x. parse_limit to_float (gazebo_joint t x) = Inr None"
    by (simp_all add: parse_axis_def parse_limit_def gazebo_joint_def find_child_def leaf_def)
  have pc: "\<And>t x. find_child ''parent'' (gazebo_joint t x) = Some (leaf ''parent'' [(''link'', ''base'')])"
    "\<And>t x. find_child ''child'' (gazebo_joint t x) = Some (leaf ''child'' [(''link'', ''arm'')])"
    by (simp_all add: gazebo_joint_def find_child_def leaf_def)
  have ci: "parse_interfaces (gazebo_joint ''command_interface'' ''position'') = Inl AttributeError"
    by (simp add: parse_interfaces_def gazebo_joint_def find_child_def find_with_attr_def leaf_def
        get_def)
  have si: "parse_interfaces (gazebo_joint ''state_interface'' ''position velocity'')
      = Inr ([Some ''position'', Some ''velocity''], [])"
    by (simp add: parse_interfaces_def gazebo_joint_def find_child_def find_with_attr_def leaf_def
        get_def split_examples)
  have g: "\<And>t x. get (gazebo_joint t x) ''name'' = Some ''shoulder''"
    "\<And>t x. get (gazebo_joint t x) ''type'' = Some ''revolute''"
    "get (leaf ''parent'' [(''link'', ''base'')]) ''link'' = Some ''base''"
    "get (leaf ''child'' [(''link'', ''arm'')]) ''link'' = Some ''arm''"
    by (simp_all add: gazebo_joint_def get_def leaf_def)
  have j1: "parse_joint to_float (gazebo_joint ''command_interface'' ''position'') = Inl AttributeError"
    by (simp add: parse_joint_def pc ax lim ci)
  have j2: "parse_joint to_float (gazebo_joint ''state_interface'' ''position velocity'')
      = Inr (Some (Joint (Some ''shoulder'') (Some ''revolute'') (Some ''base'') (Some ''arm'') None None
                 (Some [Some ''position'', Some ''velocity'']) (Some []) None))"
    by (simp add: parse_joint_def pc ax lim si g)
  show ?thesis
    unfolding parse_def links by (simp add: kids j1 j2)
qed

section \<open>Removing a block\<close>

text \<open>
  Claim C8. \<^verbatim>\<open>remove_block\<close> with an id that is not a key of the block map leaves the
  canvas unchanged. With an id that is a key, the block is removed (all other blocks are
  kept, in order), no remaining connection has the id as its source or target block id,
  nothing is added, and, the keys of the connection map being distinct as in a Python
  dict, exactly the connections that do not reference the block remain.
\<close>

theorem remove_block_spec:
  "(map_of (blocks c) bid = None \<longrightarrow> remove_block c bid = c)
   \<and> (map_of (blocks c) bid \<noteq> None \<longrightarrow>
         map_of (blocks (remove_block c bid)) bid = None
       \<and> blocks (remove_block c bid) = filter (\<lambda>(k, b). k \<noteq> bid) (blocks c)
       \<and> (\<forall>(cid, e) \<in> set (connections (remove_block c bid)).
             source_block_id e \<noteq> bid \<and> target_block_id e \<noteq> bid)
       \<and> set (connections (remove_block c bid)) \<subseteq> set (connections c)
       \<and> (distinct (map fst (connections c)) \<longrightarrow>
             connections (remove_block c bid)
               = filter (\<lambda>(cid, e). \<not> (source_block_id e = bid \<or> target_block_id e = bid))
                   (connections c)))"
proof -
  let ?refs = "\<lambda>(cid, e). source_block_id e = bid \<or> target_block_id e = bid"
  let ?ks = "map fst (filter ?refs (connections c))"
  have conn: "map_of (blocks c) bid \<noteq> None \<Longrightarrow>
      connections (remove_block c bid) = filter (\<lambda>(k, v). k \<notin> set ?ks) (connections c)"
    by (simp add: remove_block_def Let_def fold_delete_filter)
  have blk: "map_of (blocks c) bid \<noteq> None \<Longrightarrow>
      blocks (remove_block c bid) = filter (\<lambda>(k, b). k \<noteq> bid) (blocks c)"
    by (auto simp: remove_block_def Let_def AList.delete_eq intro: filter_cong)
  have gone: "map_of (filter (\<lambda>(k, b). k \<noteq> bid) (blocks c)) bid = None"
    by (induction "blocks c") (auto simp: map_of_eq_None_iff)
  have norefs: "\<forall>(cid, e) \<in> set (filter (\<lambda>(k, v). k \<notin> set ?ks) (connections c)).
             source_block_id e \<noteq> bid \<and> target_block_id e \<noteq> bid"
    by (force simp: image_iff)
  have dist: "distinct (map fst (connections c)) \<Longrightarrow>
      filter (\<lambda>(k, v). k \<notin> set ?ks) (connections c)
        = filter (\<lambda>(cid, e). \<not> (source_block_id e = bid \<or> target_block_id e = bid)) (connections c)"
  proof (rule filter_cong[OF refl])
    fix x assume d: "distinct (map fst (connections c))" and x: "x \<in> set (connections c)"
    obtain k e where xe: "x = (k, e)" by (cases x)
    have "k \<in> set ?ks \<longleftrightarrow> (source_block_id e = bid \<or> target_block_id e = bid)"
    proof
      assume "k \<in> set ?ks"
      then obtain e' where e': "(k, e') \<in> set (connections c)"
        and r: "source_block_id e' = bid \<or> target_block_id e' = bid" by auto
      from d e' x xe have "e' = e" by (meson eq_key_imp_eq_value)
      with r show "source_block_id e = bid \<or> target_block_id e = bid" by simp
    next
      assume "source_block_id e = bid \<or> target_block_id e = bid"
      with x xe show "k \<in> set ?ks" by force
    qed
    then show "(case x of (k, v) \<Rightarrow> k \<notin> set ?ks)
        = (case x of (cid, e) \<Rightarrow> \<not> (source_block_id e = bid \<or> target_block_id e = bid))"
      by (simp add: xe)
  qed
  show ?thesis
  proof (cases "map_of (blocks c) bid = None")
    case True
    then show ?thesis by (simp add: remove_block_def)
  next
    case False
    have sub: "set (filter (\<lambda>(k, v). k \<notin> set ?ks) (connections c)) \<subseteq> set (connections c)"
      by (rule filter_is_subset)
    from False show ?thesis
      using norefs dist gone sub
      by (simp only: conn[OF False] blk[OF False] simp_thms) blast
  qed
qed

text \<open>
  The theorem at an absent id, at the source block of the only edge, and at a block no
  edge references.
\<close>

theorem remove_block_spec_witness:
  "remove_block canvas_ABC ''Z'' = canvas_ABC
   \<and> map_of (blocks (remove_block canvas_connected ''A'')) ''A'' = None
   \<and> blocks (remove_block canvas_connected ''A'')
        = [(''B'', blk_B_connected ''a_out''), (''C'', blk_C), (''S'', blk_S)]
   \<and> connections (remove_block canvas_connected ''A'') = []
   \<and> connections (remove_block canvas_connected ''C'') = connections canvas_connected"
proof -
  have Z: "map_of (blocks canvas_ABC) ''Z'' = None"
    by (simp add: canvas_ABC_eval)
  have A: "map_of (blocks canvas_connected) ''A'' \<noteq> None"
    and C: "map_of (blocks canvas_connected) ''C'' \<noteq> None"
    and d: "distinct (map fst (connections canvas_connected))"
    by (simp_all add: canvas_connected_eval)
  from remove_block_spec [of canvas_ABC "''Z''", THEN conjunct1, THEN mp, OF Z]
  have 1: "remove_block canvas_ABC ''Z'' = canvas_ABC" .
  note rA = remove_block_spec [of canvas_connected "''A''", THEN conjunct2, THEN mp, OF A]
  note rC = remove_block_spec [of canvas_connected "''C''", THEN conjunct2, THEN mp, OF C]
  note 2 = rA [THEN conjunct1]
  note 3 = rA [THEN conjunct2, THEN conjunct1]
  note 4 = rA [THEN conjunct2, THEN conjunct2, THEN conjunct2, THEN conjunct2, THEN mp, OF d]
  note 5 = rC [THEN conjunct2, THEN conjunct2, THEN conjunct2, THEN conjunct2, THEN mp, OF d]
  have b: "filter (\<lambda>(k, b). k \<noteq> ''A'') (blocks canvas_connected)
        = [(''B'', blk_B_connected ''a_out''), (''C'', blk_C), (''S'', blk_S)]"
    and cA: "filter (\<lambda>(cid, e). \<not> (source_block_id e = ''A'' \<or> target_block_id e = ''A''))
            (connections canvas_connected) = []"
    and cC: "filter (\<lambda>(cid, e). \<not> (source_block_id e = ''C'' \<or> target_block_id e = ''C''))
            (connections canvas_connected) = connections canvas_connected"
    by (simp_all add: canvas_connected_eval new_conn_def)
  show ?thesis
    using 1 2 3 [unfolded b] 4 [unfolded cA] 5 [unfolded cC] by blast
qed

section \<open>Adding a block\<close>

text \<open>
  Claim C9, as the code has it. \<^verbatim>\<open>add_block\<close> never fails: it stores the block under
  its id. When the id is already a key, the block stored there is replaced (the key keeps
  its place in the iteration order); otherwise the block is appended. Blocks under other
  ids and the connection map are untouched.
\<close>

theorem add_block_replaces:
  "map_of (blocks (add_block c b)) (block_id b) = Some b
   \<and> connections (add_block c b) = connections c
   \<and> (map_of (blocks c) (block_id b) \<noteq> None \<longrightarrow>
        map fst (blocks (add_block c b)) = map fst (blocks c))
   \<and> (map_of (blocks c) (block_id b) = None \<longrightarrow>
        blocks (add_block c b) = blocks c @ [(block_id b, b)])
   \<and> (k \<noteq> block_id b \<longrightarrow> map_of (blocks (add_block c b)) k = map_of (blocks c) k)"
  by (simp add: add_block_def update_conv' update_fresh update_keys_present)


text \<open>
  The claim as stated fails: adding a second, different block with id \<^verbatim>\<open>A\<close> succeeds
  and silently replaces the first.
\<close>

theorem add_block_duplicate_id_counterexample:
  "map_of (blocks (add_block (add_block empty_canvas blk_A) blk_A2)) ''A'' = Some blk_A2
   \<and> map fst (blocks (add_block (add_block empty_canvas blk_A) blk_A2)) = [''A'']
   \<and> blk_A2 \<noteq> blk_A"
  by (simp add: add_block_def empty_canvas_def blk_A_def blk_A2_def mk_block_def)

text \<open>The amended statement with a duplicate id, a new id and an untouched key.\<close>

theorem add_block_replaces_witness:
  "map_of (blocks (add_block (add_block empty_canvas blk_A) blk_A2)) ''A'' = Some blk_A2
   \<and> map fst (blocks (add_block (add_block empty_canvas blk_A) blk_A2)) = [''A'']
   \<and> blocks (add_block (add_block empty_canvas blk_A) blk_B) = [(''A'', blk_A), (''B'', blk_B)]
   \<and> map_of (blocks (add_block (add_block empty_canvas blk_B) blk_A2)) ''B'' = Some blk_B"
proof -
  have ids: "block_id blk_A2 = ''A''" "block_id blk_B = ''B''" "block_id blk_A = ''A''"
    by (simp_all add: blk_A2_def blk_B_def blk_A_def mk_block_def)
  have c: "blocks (add_block empty_canvas blk_A) = [(''A'', blk_A)]"
    "blocks (add_block empty_canvas blk_B) = [(''B'', blk_B)]"
    by (simp_all add: add_block_def empty_canvas_def ids)
  from add_block_replaces [of "add_block empty_canvas blk_A" blk_A2 "''B''"]
  have 1: "map_of (blocks (add_block (add_block empty_canvas blk_A) blk_A2)) ''A'' = Some blk_A2"
    and 2: "map fst (blocks (add_block (add_block empty_canvas blk_A) blk_A2)) = [''A'']"
    by (simp_all add: ids c)
  from add_block_replaces [of "add_block empty_canvas blk_A" blk_B "''A''"]
  have 3: "blocks (add_block (add_block empty_canvas blk_A) blk_B) = [(''A'', blk_A), (''B'', blk_B)]"
    by (simp add: ids c)
  from add_block_replaces [of "add_block empty_canvas blk_B" blk_A2 "''B''"]
  have 4: "map_of (blocks (add_block (add_block empty_canvas blk_B) blk_A2)) ''B'' = Some blk_B"
    by (simp add: ids c)
  from 1 2 3 4 show ?thesis by simp
qed

section \<open>Self-connections\<close>

text \<open>
  Claim C10. \<^verbatim>\<open>connect_ports\<close> does not require two different blocks. For a block that
  owns an output port and an input port of compatible types, connecting the block to
  itself succeeds: the edge has the same source and target block id, it is registered,
  and the block's input port gets the id of the block's own output port as its
  back-reference, the output port being unchanged.
\<close>

theorem self_connection_allowed:
  "map_of (blocks c) k = Some blk \<and> get_port_by_id blk po = Some a \<and> get_port_by_id blk pi = Some b
     \<and> \<not> is_input a \<and> is_input b
     \<and> (data_type a = ''any'' \<or> data_type b = ''any'' \<or> data_type a = data_type b)
   \<longrightarrow> snd (connect_ports c nid k po k pi) = Some (new_conn nid k po k pi)
     \<and> source_block_id (new_conn nid k po k pi) = target_block_id (new_conn nid k po k pi)
     \<and> map_of (connections (fst (connect_ports c nid k po k pi))) nid = Some (new_conn nid k po k pi)
     \<and> map_of (blocks (fst (connect_ports c nid k po k pi))) k = Some (set_connected_to blk pi (Some po))
     \<and> get_port_by_id (set_connected_to blk pi (Some po)) pi = Some (b\<lparr>connected_to := Some (port_id a)\<rparr>)
     \<and> get_port_by_id (set_connected_to blk pi (Some po)) po = Some a"
proof (intro impI, elim conjE)
  assume h: "map_of (blocks c) k = Some blk" "get_port_by_id blk po = Some a"
    "get_port_by_id blk pi = Some b" "\<not> is_input a" "is_input b"
    "data_type a = ''any'' \<or> data_type b = ''any'' \<or> data_type a = data_type b"
  have ne: "po \<noteq> pi" using h by auto
  have ida: "port_id a = po" using h(2) by (rule get_port_by_id_id)
  have keep: "get_port_by_id (set_connected_to blk pi (Some po)) po = Some a"
    using h(2) ne by (simp add: get_port_set_connected_to_other)
  show "snd (connect_ports c nid k po k pi) = Some (new_conn nid k po k pi)
     \<and> source_block_id (new_conn nid k po k pi) = target_block_id (new_conn nid k po k pi)
     \<and> map_of (connections (fst (connect_ports c nid k po k pi))) nid = Some (new_conn nid k po k pi)
     \<and> map_of (blocks (fst (connect_ports c nid k po k pi))) k = Some (set_connected_to blk pi (Some po))
     \<and> get_port_by_id (set_connected_to blk pi (Some po)) pi = Some (b\<lparr>connected_to := Some (port_id a)\<rparr>)
     \<and> get_port_by_id (set_connected_to blk pi (Some po)) po = Some a"
    using h keep
    by (simp add: connect_ports_resolved[OF h(1) h(1) h(2) h(3)] map_of_update
          get_port_set_connected_to ida new_conn_def)
qed


text \<open>A canvas with the single function block \<^verbatim>\<open>F\<close>, connected to itself.\<close>

theorem self_connection_allowed_witness:
  "snd (connect_ports canvas_F ''e1'' ''F'' ''f_out'' ''F'' ''f_in'')
      = Some (new_conn ''e1'' ''F'' ''f_out'' ''F'' ''f_in'')
   \<and> source_block_id (new_conn ''e1'' ''F'' ''f_out'' ''F'' ''f_in'') = ''F''
   \<and> target_block_id (new_conn ''e1'' ''F'' ''f_out'' ''F'' ''f_in'') = ''F''
   \<and> map_of (blocks (fst (connect_ports canvas_F ''e1'' ''F'' ''f_out'' ''F'' ''f_in''))) ''F''
      = Some blk_F_connected
   \<and> get_port_by_id blk_F_connected ''f_in''
      = Some ((mk_port ''f_in'' ''param1'' ''any'' True)\<lparr>connected_to := Some ''f_out''\<rparr>)"
proof -
  have F: "map_of (blocks canvas_F) ''F'' = Some blk_F"
    by (simp add: canvas_F_eval)
  have hyp: "map_of (blocks canvas_F) ''F'' = Some blk_F
     \<and> get_port_by_id blk_F ''f_out'' = Some (mk_port ''f_out'' ''return_value'' ''any'' False)
     \<and> get_port_by_id blk_F ''f_in'' = Some (mk_port ''f_in'' ''param1'' ''any'' True)
     \<and> \<not> is_input (mk_port ''f_out'' ''return_value'' ''any'' False)
     \<and> is_input (mk_port ''f_in'' ''param1'' ''any'' True)
     \<and> (data_type (mk_port ''f_out'' ''return_value'' ''any'' False) = ''any''
         \<or> data_type (mk_port ''f_in'' ''param1'' ''any'' True) = ''any''
         \<or> data_type (mk_port ''f_out'' ''return_value'' ''any'' False)
            = data_type (mk_port ''f_in'' ''param1'' ''any'' True))"
    using F by (simp add: get_port_examples) (simp add: mk_port_def)
  note r = self_connection_allowed [where c = canvas_F and k = "''F''" and blk = blk_F
      and po = "''f_out''" and pi = "''f_in''" and nid = "''e1''"
      and a = "mk_port ''f_out'' ''return_value'' ''any'' False"
      and b = "mk_port ''f_in'' ''param1'' ''any'' True", THEN mp, OF hyp,
      unfolded set_connected_to_F]
  have ids: "source_block_id (new_conn ''e1'' ''F'' ''f_out'' ''F'' ''f_in'') = ''F''"
    "target_block_id (new_conn ''e1'' ''F'' ''f_out'' ''F'' ''f_in'') = ''F''"
    "port_id (mk_port ''f_out'' ''return_value'' ''any'' False) = ''f_out''"
    by (simp_all add: new_conn_def mk_port_def)
  from r ids show ?thesis by simp
qed


end
